theory Spec2Isabelle
  imports Complex_Main "HOL-Library.Multiset" "HOL-Library.Sublist"
begin

section \<open>Session handle: \<open>DatabaseConnection\<close> (db\_connection.py)\<close>

text \<open>
  \<open>DatabaseConnection\<close> keeps one attribute that changes, \<open>_connection\<close>: either
  \<open>None\<close> or a psycopg2 connection object (here its identity, a number). What a method
  does besides updating the attribute is recorded as a list of effects, in the order the
  source performs them.
\<close>

datatype effect =
    ConnectionClose nat
  | LoggerInfo string

record DatabaseConnection =
  connection :: "nat option"

text \<open>
  \<open>disconnect\<close> (lines 63-68): \<open>if self._connection:\<close> is true exactly when the attribute
  is not \<open>None\<close> (a psycopg2 connection object has no \<open>__bool__\<close> or \<open>__len__\<close>); then the
  connection is closed, the attribute reset and one line logged. Otherwise nothing happens.
  Closing a psycopg2 connection does not raise.
\<close>

definition disconnect :: "DatabaseConnection \<Rightarrow> DatabaseConnection \<times> effect list" where
  "disconnect self =
     (case connection self of
        Some c \<Rightarrow> (self\<lparr>connection := None\<rparr>,
                   [ConnectionClose c, LoggerInfo ''Database connection closed''])
      | None \<Rightarrow> (self, []))"

section \<open>Wait-for graph detector: \<open>check_deadlocks\<close> (db\_connection.py)\<close>

subsection \<open>The engine's tables\<close>

text \<open>
  A row of \<open>pg_locks\<close>. The columns of the resource descriptor other than \<open>locktype\<close> are
  nullable, and so is \<open>pid\<close> (null for a lock held by a prepared transaction); \<open>locktype\<close>,
  \<open>mode\<close> and \<open>granted\<close> are never null in the view.
\<close>

record pg_lock =
  locktype :: string
  database :: "int option"
  relation :: "int option"
  page :: "int option"
  tuple :: "int option"
  virtualxid :: "string option"
  transactionid :: "int option"
  classid :: "int option"
  objid :: "int option"
  objsubid :: "int option"
  lock_pid :: "int option"
  mode :: string
  granted :: bool

text \<open>
  A row of \<open>pg_stat_activity\<close>, with the columns the query reads. \<open>query_start\<close> is a
  timestamp, here seconds since the epoch; it is null for a session that has not run a query.
\<close>

record pg_stat_activity =
  pid :: int
  usename :: "string option"
  query :: "string option"
  query_start :: "rat option"

text \<open>A row of the result, one column per item of the select list.\<close>

record deadlock_row =
  blocked_pid :: int
  blocked_user :: "string option"
  blocked_query :: "string option"
  blocking_pid :: int
  blocking_user :: "string option"
  blocking_query :: "string option"
  wait_time_ms :: "rat option"

subsection \<open>SQL comparisons\<close>

text \<open>
  SQL's \<open>=\<close> and \<open>!=\<close> are three-valued: with a null operand the result is null
  (\<open>None\<close>). \<open>IS NOT DISTINCT FROM\<close> is two-valued: two nulls are not distinct, a null
  and a value are. A join or a \<open>WHERE\<close> keeps a row only when its condition is true.
\<close>

definition sql_eq :: "'a option \<Rightarrow> 'a option \<Rightarrow> bool option" where
  "sql_eq a b = (case (a, b) of (Some x, Some y) \<Rightarrow> Some (x = y) | _ \<Rightarrow> None)"

definition sql_neq :: "'a option \<Rightarrow> 'a option \<Rightarrow> bool option" where
  "sql_neq a b = (case (a, b) of (Some x, Some y) \<Rightarrow> Some (x \<noteq> y) | _ \<Rightarrow> None)"

definition is_not_distinct_from :: "'a option \<Rightarrow> 'a option \<Rightarrow> bool option" where
  "is_not_distinct_from a b = Some (a = b)"

definition sql_and :: "bool option \<Rightarrow> bool option \<Rightarrow> bool option" where
  "sql_and a b =
     (if a = Some False \<or> b = Some False then Some False
      else if a = Some True \<and> b = Some True then Some True
      else None)"

definition sql_not :: "bool option \<Rightarrow> bool option" where
  "sql_not a = map_option Not a"

definition sql_true :: "bool option \<Rightarrow> bool" where
  "sql_true c = (c = Some True)"

subsection \<open>The query\<close>

text \<open>
  The \<open>ON\<close> condition of the self-join of \<open>pg_locks\<close> (lines 140-151), conjunct by
  conjunct.
\<close>

definition locks_join_on :: "pg_lock \<Rightarrow> pg_lock \<Rightarrow> bool option" where
  "locks_join_on blocked_locks blocking_locks =
     sql_and (sql_eq (Some (locktype blocked_locks)) (Some (locktype blocking_locks)))
    (sql_and (is_not_distinct_from (database blocked_locks) (database blocking_locks))
    (sql_and (is_not_distinct_from (relation blocked_locks) (relation blocking_locks))
    (sql_and (is_not_distinct_from (page blocked_locks) (page blocking_locks))
    (sql_and (is_not_distinct_from (tuple blocked_locks) (tuple blocking_locks))
    (sql_and (is_not_distinct_from (virtualxid blocked_locks) (virtualxid blocking_locks))
    (sql_and (is_not_distinct_from (transactionid blocked_locks) (transactionid blocking_locks))
    (sql_and (is_not_distinct_from (classid blocked_locks) (classid blocking_locks))
    (sql_and (is_not_distinct_from (objid blocked_locks) (objid blocking_locks))
    (sql_and (is_not_distinct_from (objsubid blocked_locks) (objsubid blocking_locks))
             (sql_neq (lock_pid blocked_locks) (lock_pid blocking_locks)))))))))))"

text \<open>The \<open>WHERE\<close> clause (lines 153-154).\<close>

definition where_clause :: "pg_lock \<Rightarrow> pg_lock \<Rightarrow> bool option" where
  "where_clause blocked_locks blocking_locks =
     sql_and (sql_not (Some (granted blocked_locks))) (Some (granted blocking_locks))"

text \<open>
  The select list (lines 131-137). \<open>EXTRACT(EPOCH FROM (NOW() - query_start)) * 1000\<close> is
  null when \<open>query_start\<close> is.
\<close>

definition select_list :: "rat \<Rightarrow> pg_stat_activity \<Rightarrow> pg_stat_activity \<Rightarrow> deadlock_row" where
  "select_list now blocked blocking =
     \<lparr> blocked_pid = pid blocked,
       blocked_user = usename blocked,
       blocked_query = query blocked,
       blocking_pid = pid blocking,
       blocking_user = usename blocking,
       blocking_query = query blocking,
       wait_time_ms = map_option (\<lambda>t. (now - t) * 1000) (query_start blocked) \<rparr>"

text \<open>
  \<open>check_deadlocks\<close> (lines 127-159) runs one statement: three inner joins, in the order
  of the \<open>FROM\<close> clause, then the \<open>WHERE\<close> filter and the select list. The statement has
  no \<open>ORDER BY\<close>, \<open>DISTINCT\<close> or \<open>LIMIT\<close>. The function gives the rows of the
  statement, each as often as the joins produce it; the order of the list, that of nested
  loops over the two tables, is a choice made here and not the engine's, which is free to
  produce the rows in any order (\<open>engine_may_produce\<close> below).
  \<open>now\<close> is the statement's \<open>NOW()\<close>. The function is the result of the statement
  on the two tables; a statement that fails raises, which is the tools' concern below
  (\<open>db_check_deadlocks\<close>).
\<close>

definition check_deadlocks ::
    "rat \<Rightarrow> pg_stat_activity list \<Rightarrow> pg_lock list \<Rightarrow> deadlock_row list" where
  "check_deadlocks now activity locks =
     concat (map (\<lambda>blocked.
       concat (map (\<lambda>blocked_locks.
         if sql_true (sql_eq (Some (pid blocked)) (lock_pid blocked_locks)) then
           concat (map (\<lambda>blocking_locks.
             if sql_true (locks_join_on blocked_locks blocking_locks) then
               concat (map (\<lambda>blocking.
                 if sql_true (sql_eq (Some (pid blocking)) (lock_pid blocking_locks))
                    \<and> sql_true (where_clause blocked_locks blocking_locks)
                 then [select_list now blocked blocking] else [])
               activity)
             else [])
           locks)
         else [])
       locks))
     activity)"

subsection \<open>The detector as the specification words it\<close>

text \<open>
  Two lock requests are on the same resource when the whole descriptor agrees, a null
  field agreeing with a null field only.
\<close>

definition same_resource :: "pg_lock \<Rightarrow> pg_lock \<Rightarrow> bool" where
  "same_resource a b \<longleftrightarrow>
     locktype a = locktype b \<and> database a = database b \<and> relation a = relation b \<and>
     page a = page b \<and> tuple a = tuple b \<and> virtualxid a = virtualxid b \<and>
     transactionid a = transactionid b \<and> classid a = classid b \<and> objid a = objid b \<and>
     objsubid a = objsubid b"

text \<open>
  A contention edge pairs an ungranted request of an active session with a granted request
  on the same resource held by a different active session.
\<close>

definition contention_edge ::
    "rat \<Rightarrow> pg_stat_activity list \<Rightarrow> pg_lock list \<Rightarrow> deadlock_row \<Rightarrow> bool" where
  "contention_edge now activity locks e \<longleftrightarrow>
     (\<exists>blocked \<in> set activity. \<exists>blocking \<in> set activity.
      \<exists>req \<in> set locks. \<exists>held \<in> set locks.
        lock_pid req = Some (pid blocked) \<and> lock_pid held = Some (pid blocking) \<and>
        \<not> granted req \<and> granted held \<and> same_resource req held \<and>
        pid blocked \<noteq> pid blocking \<and>
        e = select_list now blocked blocking)"

definition conflicting_request :: "pg_lock list \<Rightarrow> bool" where
  "conflicting_request locks \<longleftrightarrow>
     (\<exists>req \<in> set locks. \<exists>held \<in> set locks.
        \<not> granted req \<and> granted held \<and> same_resource req held \<and>
        lock_pid req \<noteq> None \<and> lock_pid held \<noteq> None \<and> lock_pid req \<noteq> lock_pid held)"

text \<open>
  The order the claim about triage asks for: \<open>wait_time_ms\<close> descending, as
  \<open>ORDER BY wait_time_ms DESC\<close> would give it (PostgreSQL puts nulls first there).
\<close>

definition wait_ge :: "deadlock_row \<Rightarrow> deadlock_row \<Rightarrow> bool" where
  "wait_ge a b =
     (case (wait_time_ms a, wait_time_ms b) of
        (None, _) \<Rightarrow> True
      | (Some x, None) \<Rightarrow> False
      | (Some x, Some y) \<Rightarrow> y \<le> x)"

definition ordered_by_wait_desc :: "deadlock_row list \<Rightarrow> bool" where
  "ordered_by_wait_desc rows = sorted_wrt wait_ge rows"

subsection \<open>An injected contention\<close>

text \<open>
  Session 101 holds the transaction-id lock 700 (it updated a row); sessions 202 and 303
  request it and wait. Every session also holds its own virtual-transaction lock and a
  granted lock on the relation 16400.
\<close>

definition xid_lock :: "int \<Rightarrow> string \<Rightarrow> bool \<Rightarrow> pg_lock" where
  "xid_lock p m g =
     \<lparr> locktype = ''transactionid'', database = None, relation = None, page = None,
       tuple = None, virtualxid = None, transactionid = Some 700, classid = None,
       objid = None, objsubid = None, lock_pid = Some p, mode = m, granted = g \<rparr>"

definition relation_lock :: "int \<Rightarrow> pg_lock" where
  "relation_lock p =
     \<lparr> locktype = ''relation'', database = Some 5, relation = Some 16400, page = None,
       tuple = None, virtualxid = None, transactionid = None, classid = None,
       objid = None, objsubid = None, lock_pid = Some p, mode = ''RowShareLock'',
       granted = True \<rparr>"

definition session :: "int \<Rightarrow> rat \<Rightarrow> pg_stat_activity" where
  "session p t =
     \<lparr> pid = p, usename = Some ''dbagent'',
       query = Some ''SELECT * FROM orders WHERE order_id = 1 FOR UPDATE'',
       query_start = Some t \<rparr>"

definition pair_activity :: "pg_stat_activity list" where
  "pair_activity = [session 101 90, session 202 95]"

definition pair_locks :: "pg_lock list" where
  "pair_locks =
     [relation_lock 101, xid_lock 101 ''ExclusiveLock'' True,
      relation_lock 202, xid_lock 202 ''ShareLock'' False]"

definition idle_locks :: "pg_lock list" where
  "idle_locks = [relation_lock 101, xid_lock 101 ''ExclusiveLock'' True, relation_lock 202]"

definition trio_activity :: "pg_stat_activity list" where
  "trio_activity = [session 101 90, session 202 95, session 303 91]"

definition trio_locks :: "pg_lock list" where
  "trio_locks =
     [xid_lock 101 ''ExclusiveLock'' True,
      xid_lock 202 ''ShareLock'' False,
      xid_lock 303 ''ShareLock'' False]"

definition edge :: "int \<Rightarrow> int \<Rightarrow> rat \<Rightarrow> deadlock_row" where
  "edge waiter holder ms =
     \<lparr> blocked_pid = waiter, blocked_user = Some ''dbagent'',
       blocked_query = Some ''SELECT * FROM orders WHERE order_id = 1 FOR UPDATE'',
       blocking_pid = holder, blocking_user = Some ''dbagent'',
       blocking_query = Some ''SELECT * FROM orders WHERE order_id = 1 FOR UPDATE'',
       wait_time_ms = Some ms \<rparr>"

section \<open>Deadlock trigger coordinator (scripts/01\_trigger\_deadlock.py)\<close>

subsection \<open>Exceptions, outcomes and the state of one script\<close>

text \<open>
  The scripts distinguish one class of exceptions, \<open>psycopg2.Error\<close>, whose instances
  carry the engine's error code \<open>pgcode\<close> (\<open>None\<close> for an error raised on the client
  side). Every other exception is \<open>OtherException\<close>.
\<close>

datatype script_exn =
    PsycopgError "string option" string
  | OtherException string

fun is_psycopg_error :: "script_exn \<Rightarrow> bool" where
  "is_psycopg_error (PsycopgError c m) = True"
| "is_psycopg_error (OtherException m) = False"

text \<open>
  The engine's deadlock class, as the specification names it: \<open>deadlock_detected\<close>
  (40P01) and \<open>serialization_failure\<close> (40001). The scripts never look at the code
  except to print it.
\<close>

fun deadlock_class :: "script_exn \<Rightarrow> bool" where
  "deadlock_class (PsycopgError c m) = (c = Some ''40P01'' \<or> c = Some ''40001'')"
| "deadlock_class (OtherException m) = False"

text \<open>
  What a call into psycopg2 does is the engine's choice: it returns, raises, or blocks for
  ever (a lock wait the engine never resolves).
\<close>

datatype outcome = Ok | Raises script_exn | Blocks

datatype 'a res = Val 'a | Exc script_exn | Hang

datatype handle = Absent | Opened | Closed

datatype action =
    Connect
  | SetAutocommit bool
  | Cursor
  | Execute string
  | EventSet string
  | EventWait string
  | Sleep nat
  | Commit
  | Rollback
  | Print string
  | CursorClose
  | ConnClose

text \<open>The two module-level \<open>threading.Event\<close> objects.\<close>

record barrier =
  lock1_acquired :: bool
  lock2_acquired :: bool

record script_state =
  conn :: handle
  cur :: handle
  events :: barrier
  trace :: "action list"

type_synonym 'a prog = "script_state \<Rightarrow> 'a res \<times> script_state"

definition did :: "action \<Rightarrow> script_state \<Rightarrow> script_state" where
  "did a s = s\<lparr>trace := trace s @ [a]\<rparr>"

definition call :: "action \<Rightarrow> outcome \<Rightarrow> unit prog" where
  "call a out s =
     (case out of
        Ok \<Rightarrow> (Val (), did a s)
      | Raises e \<Rightarrow> (Exc e, did a s)
      | Blocks \<Rightarrow> (Hang, did a s))"

text \<open>A suite of statements runs in order and stops at the first that raises or blocks.\<close>

fun seq :: "unit prog list \<Rightarrow> unit prog" where
  "seq [] s = (Val (), s)"
| "seq (p # ps) s =
     (case p s of
        (Val u, s') \<Rightarrow> seq ps s'
      | (Exc e, s') \<Rightarrow> (Exc e, s')
      | (Hang, s') \<Rightarrow> (Hang, s'))"

text \<open>
  \<open>try: body except C as e: handler\<close>: the handler runs for an exception of the class
  \<open>C\<close>, any other exception stays pending. \<open>try: body finally: final\<close>: the
  \<open>finally\<close> suite runs however the body ended, unless it never ended; an exception of
  the \<open>finally\<close> suite replaces the pending result.
\<close>

definition try_except ::
    "unit prog \<Rightarrow> (script_exn \<Rightarrow> bool) \<Rightarrow> (script_exn \<Rightarrow> unit prog) \<Rightarrow> unit prog" where
  "try_except body catches handler s =
     (case body s of
        (Exc e, s') \<Rightarrow> if catches e then handler e s' else (Exc e, s')
      | r \<Rightarrow> r)"

definition try_finally :: "unit prog \<Rightarrow> unit prog \<Rightarrow> unit prog" where
  "try_finally body final s =
     (case body s of
        (Hang, s') \<Rightarrow> (Hang, s')
      | (r, s') \<Rightarrow>
          (case final s' of
             (Val u, s'') \<Rightarrow> (r, s'')
           | (x, s'') \<Rightarrow> (x, s'')))"

subsection \<open>The calls the scripts make\<close>

text \<open>
  \<open>psycopg2.connect\<close>, \<open>execute\<close>, \<open>commit\<close> and \<open>rollback\<close> talk to the engine:
  they return, raise or block as the engine decides. Setting \<open>autocommit\<close> on a new
  connection, \<open>conn.cursor()\<close>, \<open>cur.close()\<close>, \<open>conn.close()\<close>, \<open>print\<close> and
  \<open>time.sleep\<close> are local and return.
\<close>

definition connect :: "outcome \<Rightarrow> unit prog" where
  "connect out s =
     (case out of
        Ok \<Rightarrow> (Val (), did Connect (s\<lparr>conn := Opened\<rparr>))
      | Raises e \<Rightarrow> (Exc e, did Connect s)
      | Blocks \<Rightarrow> (Hang, did Connect s))"

definition set_autocommit :: "bool \<Rightarrow> unit prog" where
  "set_autocommit b s = (Val (), did (SetAutocommit b) s)"

definition cursor :: "unit prog" where
  "cursor s = (Val (), did Cursor (s\<lparr>cur := Opened\<rparr>))"

definition execute :: "string \<Rightarrow> outcome \<Rightarrow> unit prog" where
  "execute sql out = call (Execute sql) out"

definition commit :: "outcome \<Rightarrow> unit prog" where
  "commit out = call Commit out"

definition rollback :: "outcome \<Rightarrow> unit prog" where
  "rollback out = call Rollback out"

definition print :: "string \<Rightarrow> unit prog" where
  "print text s = (Val (), did (Print text) s)"

definition sleep :: "nat \<Rightarrow> unit prog" where
  "sleep n s = (Val (), did (Sleep n) s)"

definition cursor_close :: "unit prog" where
  "cursor_close s = (Val (), did CursorClose (s\<lparr>cur := Closed\<rparr>))"

definition conn_close :: "unit prog" where
  "conn_close s = (Val (), did ConnClose (s\<lparr>conn := Closed\<rparr>))"

definition lock1_set :: "unit prog" where
  "lock1_set s =
     (Val (), did (EventSet ''lock1_acquired'')
                (s\<lparr>events := (events s)\<lparr>lock1_acquired := True\<rparr>\<rparr>))"

definition lock2_set :: "unit prog" where
  "lock2_set s =
     (Val (), did (EventSet ''lock2_acquired'')
                (s\<lparr>events := (events s)\<lparr>lock2_acquired := True\<rparr>\<rparr>))"

text \<open>
  \<open>Event.wait()\<close> without a timeout returns at once when the flag is set, and otherwise
  blocks until the other thread sets it; \<open>peer\<close> says whether the other thread ever does.
\<close>

definition lock1_wait :: "bool \<Rightarrow> unit prog" where
  "lock1_wait peer s =
     (if lock1_acquired (events s) \<or> peer then (Val (), did (EventWait ''lock1_acquired'') s)
      else (Hang, did (EventWait ''lock1_acquired'') s))"

definition lock2_wait :: "bool \<Rightarrow> unit prog" where
  "lock2_wait peer s =
     (if lock2_acquired (events s) \<or> peer then (Val (), did (EventWait ''lock2_acquired'') s)
      else (Hang, did (EventWait ''lock2_acquired'') s))"

subsection \<open>The two transaction scripts\<close>

text \<open>The engine's answers to the calls of one script, one per call site.\<close>

record txn_env =
  connect_out :: outcome
  set_timeout_out :: outcome
  first_lock_out :: outcome
  second_lock_out :: outcome
  commit_out :: outcome
  rollback_out :: outcome

definition str_pgcode :: "string option \<Rightarrow> string" where
  "str_pgcode c = (case c of None \<Rightarrow> ''None'' | Some x \<Rightarrow> x)"

fun str_exn :: "script_exn \<Rightarrow> string" where
  "str_exn (PsycopgError c m) = m"
| "str_exn (OtherException m) = m"

fun pgcode :: "script_exn \<Rightarrow> string option" where
  "pgcode (PsycopgError c m) = c"
| "pgcode (OtherException m) = None"

definition set_deadlock_timeout :: string where
  "set_deadlock_timeout = ''SET deadlock_timeout = '' @ [CHR 0x27] @ ''10s'' @ [CHR 0x27]"

definition lock_orders :: string where
  "lock_orders = ''SELECT * FROM orders WHERE order_id = 1 FOR UPDATE''"

definition lock_inventory :: string where
  "lock_inventory = ''SELECT * FROM inventory WHERE product_id = 1 FOR UPDATE''"

text \<open>\<open>txn1\<close>: lines 23-39 are the \<open>try\<close> suite, 41-43 the handler, 44-46 the \<open>finally\<close>.\<close>

definition txn1_try :: "bool \<Rightarrow> txn_env \<Rightarrow> unit prog" where
  "txn1_try peer env =
     seq [execute set_deadlock_timeout (set_timeout_out env),
          execute lock_orders (first_lock_out env),
          lock1_set,
          lock2_wait peer,
          sleep 1,
          execute lock_inventory (second_lock_out env),
          commit (commit_out env)]"

definition txn1_except :: "txn_env \<Rightarrow> script_exn \<Rightarrow> unit prog" where
  "txn1_except env e =
     seq [print (''[T1] DEADLOCK or rollback: '' @ str_pgcode (pgcode e) @ '' - '' @ str_exn e),
          rollback (rollback_out env)]"

definition txn1_guarded :: "bool \<Rightarrow> txn_env \<Rightarrow> unit prog" where
  "txn1_guarded peer env =
     try_finally (try_except (txn1_try peer env) is_psycopg_error (txn1_except env))
                 (seq [cursor_close, conn_close])"

definition txn1 :: "bool \<Rightarrow> txn_env \<Rightarrow> unit prog" where
  "txn1 peer env =
     seq [connect (connect_out env), set_autocommit False, cursor, txn1_guarded peer env]"

text \<open>\<open>txn2\<close>, lines 49-76: the same with the two rows and the two events exchanged.\<close>

definition txn2_try :: "bool \<Rightarrow> txn_env \<Rightarrow> unit prog" where
  "txn2_try peer env =
     seq [execute set_deadlock_timeout (set_timeout_out env),
          execute lock_inventory (first_lock_out env),
          lock2_set,
          lock1_wait peer,
          sleep 1,
          execute lock_orders (second_lock_out env),
          commit (commit_out env)]"

definition txn2_except :: "txn_env \<Rightarrow> script_exn \<Rightarrow> unit prog" where
  "txn2_except env e =
     seq [print (''[T2] DEADLOCK or rollback: '' @ str_pgcode (pgcode e) @ '' - '' @ str_exn e),
          rollback (rollback_out env)]"

definition txn2_guarded :: "bool \<Rightarrow> txn_env \<Rightarrow> unit prog" where
  "txn2_guarded peer env =
     try_finally (try_except (txn2_try peer env) is_psycopg_error (txn2_except env))
                 (seq [cursor_close, conn_close])"

definition txn2 :: "bool \<Rightarrow> txn_env \<Rightarrow> unit prog" where
  "txn2 peer env =
     seq [connect (connect_out env), set_autocommit False, cursor, txn2_guarded peer env]"

definition fresh :: "barrier \<Rightarrow> script_state" where
  "fresh b = \<lparr> conn = Absent, cur = Absent, events = b, trace = [] \<rparr>"

subsection \<open>One round\<close>

text \<open>
  A script sets its own event after its first lock, so it does exactly when connecting,
  the \<open>SET\<close> and the first \<open>SELECT ... FOR UPDATE\<close> all succeed.
\<close>

definition signals :: "txn_env \<Rightarrow> bool" where
  "signals env \<longleftrightarrow> connect_out env = Ok \<and> set_timeout_out env = Ok \<and> first_lock_out env = Ok"

record round_env =
  t1_env :: txn_env
  t2_env :: txn_env

datatype round_event =
    RoundBegin nat
  | Launch nat barrier
  | ThreadEnded string "unit res"
  | RoundEnd nat

record coordinator =
  flags :: barrier
  log :: "round_event list"

definition logged :: "round_event \<Rightarrow> coordinator \<Rightarrow> coordinator" where
  "logged ev w = w\<lparr>log := log w @ [ev]\<rparr>"

definition lock1_clear :: "coordinator \<Rightarrow> coordinator" where
  "lock1_clear w = w\<lparr>flags := (flags w)\<lparr>lock1_acquired := False\<rparr>\<rparr>"

definition lock2_clear :: "coordinator \<Rightarrow> coordinator" where
  "lock2_clear w = w\<lparr>flags := (flags w)\<lparr>lock2_acquired := False\<rparr>\<rparr>"

text \<open>
  \<open>run_deadlock_round\<close> (lines 79-93). The main thread prints, clears both events and
  starts the two threads; \<open>Launch\<close> records the state of the events when \<open>t1.start()\<close>
  is reached. The threads share the two events only: each sets its own and waits for the
  other's, and nothing clears an event while they run, so the events they leave behind do
  not depend on the interleaving and the two scripts are run one after the other here,
  each told whether its peer signals. A \<open>join\<close> returns when its thread has ended, by
  returning or by an exception; if a thread blocks for ever the round does not complete
  (\<open>False\<close>). \<open>main\<close> (lines 96-101) calls \<open>run_deadlock_round\<close> in an endless loop,
  one round after the other with the next round number.
\<close>

definition run_deadlock_round :: "nat \<Rightarrow> round_env \<Rightarrow> coordinator \<Rightarrow> bool \<times> coordinator" where
  "run_deadlock_round round_id env w =
     (let w1 = lock2_clear (lock1_clear (logged (RoundBegin round_id) w));
          w2 = logged (Launch round_id (flags w1)) w1;
          (r1, s1) = txn1 (signals (t2_env env)) (t1_env env) (fresh (flags w2));
          (r2, s2) = txn2 (signals (t1_env env)) (t2_env env) (fresh (events s1));
          w3 = logged (ThreadEnded ''t2'' r2) (logged (ThreadEnded ''t1'' r1) (w2\<lparr>flags := events s2\<rparr>))
      in if r1 = Hang \<or> r2 = Hang then (False, w3)
         else (True, logged (RoundEnd round_id) w3))"

subsection \<open>Engines for the examples\<close>

definition all_ok :: txn_env where
  "all_ok = \<lparr> connect_out = Ok, set_timeout_out = Ok, first_lock_out = Ok,
              second_lock_out = Ok, commit_out = Ok, rollback_out = Ok \<rparr>"

definition deadlock_detected :: script_exn where
  "deadlock_detected = PsycopgError (Some ''40P01'') ''deadlock detected''"

definition undefined_table :: script_exn where
  "undefined_table = PsycopgError (Some ''42P01'') ''relation orders does not exist''"

definition victim :: txn_env where
  "victim = all_ok\<lparr>second_lock_out := Raises deadlock_detected\<rparr>"

definition no_orders_table :: txn_env where
  "no_orders_table = all_ok\<lparr>first_lock_out := Raises undefined_table\<rparr>"

definition out_of_memory :: txn_env where
  "out_of_memory = all_ok\<lparr>second_lock_out := Raises (OtherException ''MemoryError'')\<rparr>"

definition cleared :: barrier where
  "cleared = \<lparr> lock1_acquired = False, lock2_acquired = False \<rparr>"

text \<open>The state of a script when it enters its \<open>try\<close> statement.\<close>

definition entered :: "barrier \<Rightarrow> script_state" where
  "entered b = \<lparr> conn = Opened, cur = Opened, events = b,
                 trace = [Connect, SetAutocommit False, Cursor] \<rparr>"

text \<open>The launches a log records, in order: the round and the events at \<open>t1.start()\<close>.\<close>

fun launches :: "round_event list \<Rightarrow> (nat \<times> barrier) list" where
  "launches [] = []"
| "launches (Launch n b # evs) = (n, b) # launches evs"
| "launches (ev # evs) = launches evs"

definition deadlock_round :: round_env where
  "deadlock_round = \<lparr> t1_env = victim, t2_env = all_ok \<rparr>"

definition started :: coordinator where
  "started = \<lparr> flags = cleared, log = [] \<rparr>"

section \<open>Tool dispatch: \<open>DatabaseAgent\<close> (server.py)\<close>

subsection \<open>Python values and exceptions\<close>

text \<open>
  The values the tools handle are those of JSON plus Python's distinction between \<open>int\<close>
  and \<open>float\<close>. A \<open>float\<close> is idealised as a rational number: rounding errors, infinities
  and NaN are not modelled. A \<open>dict\<close> is an association list in insertion order; the rows
  of \<open>RealDictCursor\<close> are such dicts.
\<close>

datatype pyval =
    PNone
  | PBool bool
  | PInt int
  | PFloat rat
  | PStr string
  | PList "pyval list"
  | PDict "(pyval \<times> pyval) list"

type_synonym row = "(pyval \<times> pyval) list"

text \<open>
  The exceptions are instances of Python's class \<open>Exception\<close>, the class the tools'
  handlers name: the errors of psycopg2 (\<open>DatabaseError\<close>), those the tools' own
  expressions raise, and any other (\<open>OtherError\<close>). \<open>str_of_exn\<close> is \<open>str(e)\<close>; for a
  \<open>KeyError\<close> that is the key in quotes.
\<close>

datatype py_exn =
    KeyError string
  | TypeError string
  | ZeroDivisionError string
  | DatabaseError string
  | OtherError string

fun str_of_exn :: "py_exn \<Rightarrow> string" where
  "str_of_exn (KeyError k) = [CHR 0x27] @ k @ [CHR 0x27]"
| "str_of_exn (TypeError m) = m"
| "str_of_exn (ZeroDivisionError m) = m"
| "str_of_exn (DatabaseError m) = m"
| "str_of_exn (OtherError m) = m"

fun is_ZeroDivisionError :: "py_exn \<Rightarrow> bool" where
  "is_ZeroDivisionError (ZeroDivisionError m) = True"
| "is_ZeroDivisionError e = False"

subsection \<open>Computations that may raise and that call the database\<close>

text \<open>
  What a tool does besides computing its result: the calls it makes to the database
  connection and to the logger, in order.
\<close>

datatype call =
    GetDbConnection
  | ExecuteQuery string "pyval list"
  | ExecuteTimedQuery string
  | GetSlowQueries rat
  | CheckDeadlocks
  | GetDatabaseSize
  | LoggerError string

type_synonym 'a py = "call list \<Rightarrow> (py_exn + 'a) \<times> call list"

definition py_return :: "'a \<Rightarrow> 'a py" where
  "py_return x l = (Inr x, l)"

definition py_raise :: "py_exn \<Rightarrow> 'a py" where
  "py_raise e l = (Inl e, l)"

definition py_bind :: "'a py \<Rightarrow> ('a \<Rightarrow> 'b py) \<Rightarrow> 'b py" where
  "py_bind m f l = (case m l of (Inl e, l') \<Rightarrow> (Inl e, l') | (Inr x, l') \<Rightarrow> f x l')"

text \<open>\<open>try: body except Exception as e: handler\<close>.\<close>

definition py_try :: "'a py \<Rightarrow> (py_exn \<Rightarrow> 'a py) \<Rightarrow> 'a py" where
  "py_try body handler l =
     (case body l of (Inl e, l') \<Rightarrow> handler e l' | (Inr x, l') \<Rightarrow> (Inr x, l'))"

definition called :: "call \<Rightarrow> (py_exn + 'a) \<Rightarrow> 'a py" where
  "called c r l = (r, l @ [c])"

text \<open>A comprehension whose element expression may raise, and a \<open>for\<close> loop with state.\<close>

fun py_map :: "('a \<Rightarrow> 'b py) \<Rightarrow> 'a list \<Rightarrow> 'b list py" where
  "py_map f [] = py_return []"
| "py_map f (x # xs) =
     py_bind (f x) (\<lambda>y. py_bind (py_map f xs) (\<lambda>ys. py_return (y # ys)))"

fun py_for :: "('s \<Rightarrow> 'a \<Rightarrow> 's py) \<Rightarrow> 's \<Rightarrow> 'a list \<Rightarrow> 's py" where
  "py_for f acc [] = py_return acc"
| "py_for f acc (x # xs) = py_bind (f acc x) (\<lambda>acc'. py_for f acc' xs)"

subsection \<open>Operations on values\<close>

fun int_of :: "pyval \<Rightarrow> int option" where
  "int_of (PBool b) = Some (if b then 1 else 0)"
| "int_of (PInt i) = Some i"
| "int_of v = None"

fun num_of :: "pyval \<Rightarrow> rat option" where
  "num_of (PBool b) = Some (if b then 1 else 0)"
| "num_of (PInt i) = Some (of_int i)"
| "num_of (PFloat x) = Some x"
| "num_of v = None"

text \<open>\<open>d[k]\<close> for a string key, \<open>d.get(k, default)\<close>, \<open>k in d\<close> and \<open>d[k] = v\<close>.\<close>

definition subscript :: "row \<Rightarrow> string \<Rightarrow> pyval py" where
  "subscript d k =
     (case map_of d (PStr k) of Some v \<Rightarrow> py_return v | None \<Rightarrow> py_raise (KeyError k))"

definition dict_get :: "row \<Rightarrow> pyval \<Rightarrow> pyval \<Rightarrow> pyval" where
  "dict_get d k dflt = (case map_of d k of Some v \<Rightarrow> v | None \<Rightarrow> dflt)"

definition dict_has :: "row \<Rightarrow> pyval \<Rightarrow> bool" where
  "dict_has d k \<longleftrightarrow> map_of d k \<noteq> None"

fun dict_set :: "row \<Rightarrow> pyval \<Rightarrow> pyval \<Rightarrow> row" where
  "dict_set [] k v = [(k, v)]"
| "dict_set ((k', v') # d) k v =
     (if k' = k then (k, v) # d else (k', v') # dict_set d k v)"

text \<open>
  \<open>round(x, 2)\<close>: an \<open>int\<close> is returned as it is, a \<open>float\<close> is rounded to two
  decimals, half to even; anything else is a \<open>TypeError\<close>.
\<close>

definition round_half_even :: "rat \<Rightarrow> int" where
  "round_half_even y =
     (let f = \<lfloor>y\<rfloor>; d = y - of_int f
      in if d < 1 / 2 then f else if 1 / 2 < d then f + 1 else if even f then f else f + 1)"

definition round2 :: "rat \<Rightarrow> rat" where
  "round2 x = of_int (round_half_even (x * 100)) / 100"

fun py_round2 :: "pyval \<Rightarrow> pyval py" where
  "py_round2 (PBool b) = py_return (PInt (if b then 1 else 0))"
| "py_round2 (PInt i) = py_return (PInt i)"
| "py_round2 (PFloat x) = py_return (PFloat (round2 x))"
| "py_round2 v = py_raise (TypeError ''type doesn't define __round__ method'')"

text \<open>\<open>a + b\<close>, \<open>a > c\<close>, \<open>a / b\<close> and \<open>a * b\<close> on numbers; \<open>sum\<close> starts from the \<open>int\<close> 0.\<close>

definition py_add :: "pyval \<Rightarrow> pyval \<Rightarrow> pyval py" where
  "py_add a b =
     (case (int_of a, int_of b) of
        (Some i, Some j) \<Rightarrow> py_return (PInt (i + j))
      | _ \<Rightarrow>
        (case (num_of a, num_of b) of
           (Some x, Some y) \<Rightarrow> py_return (PFloat (x + y))
         | _ \<Rightarrow> py_raise (TypeError ''unsupported operand type(s) for +'')))"

definition py_sum :: "pyval list \<Rightarrow> pyval py" where
  "py_sum vs = py_for py_add (PInt 0) vs"

definition py_gt :: "pyval \<Rightarrow> rat \<Rightarrow> bool py" where
  "py_gt a c =
     (case num_of a of
        Some x \<Rightarrow> py_return (c < x)
      | None \<Rightarrow> py_raise (TypeError ''> not supported between instances''))"

definition py_truediv :: "pyval \<Rightarrow> pyval \<Rightarrow> pyval py" where
  "py_truediv a b =
     (case (num_of a, num_of b) of
        (Some x, Some y) \<Rightarrow>
          if y = 0 then py_raise (ZeroDivisionError ''division by zero'')
          else py_return (PFloat (x / y))
      | _ \<Rightarrow> py_raise (TypeError ''unsupported operand type(s) for /''))"

definition py_mul :: "pyval \<Rightarrow> pyval \<Rightarrow> pyval py" where
  "py_mul a b =
     (case (int_of a, int_of b) of
        (Some i, Some j) \<Rightarrow> py_return (PInt (i * j))
      | _ \<Rightarrow>
        (case (num_of a, num_of b) of
           (Some x, Some y) \<Rightarrow> py_return (PFloat (x * y))
         | _ \<Rightarrow> py_raise (TypeError ''unsupported operand type(s) for *'')))"

definition py_num :: "pyval \<Rightarrow> rat py" where
  "py_num a =
     (case num_of a of
        Some x \<Rightarrow> py_return x
      | None \<Rightarrow> py_raise (TypeError ''unsupported operand type(s) for /''))"

text \<open>\<open>int(x)\<close> of a \<open>float\<close> truncates towards zero.\<close>

definition trunc :: "rat \<Rightarrow> int" where
  "trunc x = (if 0 \<le> x then \<lfloor>x\<rfloor> else \<lceil>x\<rceil>)"

text \<open>
  \<open>s.lower()\<close> on the ASCII letters (a \<open>string\<close> here is a list of bytes), \<open>a in s\<close>
  for strings, and \<open>str(n)\<close> of an \<open>int\<close>.
\<close>

definition lower_char :: "char \<Rightarrow> char" where
  "lower_char c =
     (let n = (of_char c :: nat) in if 65 \<le> n \<and> n \<le> 90 then char_of (n + 32) else c)"

definition lower :: "string \<Rightarrow> string" where
  "lower s = map lower_char s"

definition contains :: "string \<Rightarrow> string \<Rightarrow> bool" where
  "contains s a \<longleftrightarrow> sublist a s"

function str_nat :: "nat \<Rightarrow> string" where
  "str_nat n =
     (if n < 10 then [char_of (48 + n)] else str_nat (n div 10) @ [char_of (48 + n mod 10)])"
  by pat_completeness auto
termination
  by (relation "measure id") auto

definition str_int :: "int \<Rightarrow> string" where
  "str_int i = (if i < 0 then ''-'' @ str_nat (nat (- i)) else str_nat (nat i))"

definition field :: "pyval \<Rightarrow> string \<Rightarrow> pyval option" where
  "field r k = (case r of PDict d \<Rightarrow> map_of d (PStr k) | _ \<Rightarrow> None)"

subsection \<open>The database connection as the tools see it\<close>

text \<open>
  The answers of the database during one tool call: whether \<open>get_db_connection\<close> raises,
  and what each method of the connection returns or raises for its arguments. Within one
  tool call no method is called twice with the same arguments, so a function of the
  arguments loses nothing.
\<close>

record db =
  db_connect :: "py_exn option"
  db_execute_timed_query :: "string \<Rightarrow> py_exn + (row list \<times> rat)"
  db_execute_query :: "string \<Rightarrow> pyval list \<Rightarrow> py_exn + row list"
  db_get_slow_queries :: "rat \<Rightarrow> py_exn + row list"
  db_check_deadlocks :: "py_exn + row list"
  db_get_database_size :: "py_exn + row"

definition get_db_connection :: "db \<Rightarrow> unit py" where
  "get_db_connection d =
     called GetDbConnection (case db_connect d of None \<Rightarrow> Inr () | Some e \<Rightarrow> Inl e)"

definition execute_timed_query :: "db \<Rightarrow> string \<Rightarrow> (row list \<times> rat) py" where
  "execute_timed_query d q = called (ExecuteTimedQuery q) (db_execute_timed_query d q)"

definition execute_query :: "db \<Rightarrow> string \<Rightarrow> pyval list \<Rightarrow> row list py" where
  "execute_query d q params = called (ExecuteQuery q params) (db_execute_query d q params)"

text \<open>\<open>execute_query(..., fetch=False)\<close> returns \<open>None\<close>.\<close>

definition execute_query_no_fetch :: "db \<Rightarrow> string \<Rightarrow> pyval list \<Rightarrow> unit py" where
  "execute_query_no_fetch d q params =
     called (ExecuteQuery q params)
       (case db_execute_query d q params of Inl e \<Rightarrow> Inl e | Inr rows \<Rightarrow> Inr ())"

definition get_slow_queries :: "db \<Rightarrow> rat \<Rightarrow> row list py" where
  "get_slow_queries d threshold_ms = called (GetSlowQueries threshold_ms) (db_get_slow_queries d threshold_ms)"

definition db_check_deadlocks_call :: "db \<Rightarrow> row list py" where
  "db_check_deadlocks_call d = called CheckDeadlocks (db_check_deadlocks d)"

definition get_database_size :: "db \<Rightarrow> row py" where
  "get_database_size d = called GetDatabaseSize (db_get_database_size d)"

subsection \<open>The result envelopes\<close>

abbreviation kv :: "string \<Rightarrow> pyval \<Rightarrow> pyval \<times> pyval" where
  "kv k v \<equiv> (PStr k, v)"

definition strings :: "string list \<Rightarrow> pyval" where
  "strings ss = PList (map PStr ss)"

definition dicts :: "row list \<Rightarrow> pyval" where
  "dicts rs = PList (map PDict rs)"

text \<open>The handler of every tool: log, and return \<open>{"success": False, "error": str(e)}\<close>.\<close>

definition failure :: "py_exn \<Rightarrow> pyval" where
  "failure e = PDict [kv ''success'' (PBool False), kv ''error'' (PStr (str_of_exn e))]"

definition on_exception :: "string \<Rightarrow> py_exn \<Rightarrow> pyval py" where
  "on_exception what e =
     py_bind (called (LoggerError (what @ str_of_exn e)) (Inr ())) (\<lambda>u. py_return (failure e))"

subsection \<open>Recommendations\<close>

definition get_slow_query_recommendations :: "string \<Rightarrow> string list" where
  "get_slow_query_recommendations query_text =
     (let query_lower = lower query_text;
          recommendations =
            (if contains query_lower ''where'' \<and> contains query_lower ''category''
             then [''Add index on category column''] else []) @
            (if contains query_lower ''join''
             then [''Review JOIN strategy and indexes''] else []) @
            (if contains query_text ''*''
             then [''Select specific columns instead of *''] else []) @
            (if contains query_lower ''like''
             then [''Avoid LIKE operations on large tables''] else [])
      in if recommendations \<noteq> [] then recommendations
         else [''Consider adding appropriate indexes'', ''Review query execution plan''])"

definition get_size_recommendations :: "rat \<Rightarrow> int \<Rightarrow> string list" where
  "get_size_recommendations usage_percent days_until_full =
     (let recommendations =
            (if 70 < usage_percent then [''Archive old data to reduce database size''] else []) @
            (if days_until_full < 60 then [''Consider increasing storage allocation''] else []) @
            (if 80 < usage_percent then [''Implement data retention policies''] else [])
      in if recommendations = [] then [''Monitor growth trends''] else recommendations)"

subsection \<open>\<open>check_query_response_time\<close> (lines 70-134)\<close>

definition insert_query_stats :: string where
  "insert_query_stats =
     ''INSERT INTO query_stats (query_text, execution_time_ms, rows_affected, is_slow) VALUES (%s, %s, %s, %s)''"

definition check_query_response_time_body :: "db \<Rightarrow> string \<Rightarrow> pyval py" where
  "check_query_response_time_body d input =
     py_bind (get_db_connection d) (\<lambda>u.
       let threshold_ms = 1000; input_lower = lower input
       in if list_ex (\<lambda>keyword. contains input_lower keyword)
               [''select'', ''update'', ''delete'', ''insert'']
          then
            py_bind (execute_timed_query d input) (\<lambda>(results, execution_time).
            py_bind (execute_query_no_fetch d insert_query_stats
                       [PStr input, PFloat execution_time, PInt (int (length results)),
                        PBool (threshold_ms < execution_time)]) (\<lambda>u.
              let is_slow = threshold_ms < execution_time
              in py_return (PDict
                   [kv ''success'' (PBool True),
                    kv ''input'' (PStr input),
                    kv ''query'' (PStr input),
                    kv ''response_time_ms'' (PFloat (round2 execution_time)),
                    kv ''rows_returned'' (PInt (int (length results))),
                    kv ''is_slow'' (PBool is_slow),
                    kv ''status'' (PStr (if is_slow then ''SLOW'' else ''NORMAL'')),
                    kv ''threshold_ms'' (PFloat threshold_ms),
                    kv ''recommendations''
                       (strings (if is_slow then get_slow_query_recommendations input else []))])))
          else
            py_bind (get_slow_queries d threshold_ms) (\<lambda>slow_queries.
              if slow_queries \<noteq> []
              then py_return (PDict
                   [kv ''success'' (PBool True),
                    kv ''input'' (PStr input),
                    kv ''slow_queries_found'' (PInt (int (length slow_queries))),
                    kv ''status'' (PStr ''SLOW QUERIES DETECTED''),
                    kv ''queries'' (dicts slow_queries),
                    kv ''threshold_ms'' (PFloat threshold_ms)])
              else py_return (PDict
                   [kv ''success'' (PBool True),
                    kv ''input'' (PStr input),
                    kv ''status'' (PStr ''NORMAL''),
                    kv ''message'' (PStr ''No slow queries detected'')])))"

definition check_query_response_time :: "db \<Rightarrow> string \<Rightarrow> pyval py" where
  "check_query_response_time d input =
     py_try (check_query_response_time_body d input)
            (on_exception ''Query response time check error: '')"

subsection \<open>\<open>check_deadlock\<close> (lines 136-182)\<close>

definition transaction :: "row \<Rightarrow> pyval py" where
  "transaction r =
     py_bind (subscript r ''blocked_pid'') (\<lambda>blocked_session.
     py_bind (subscript r ''blocked_query'') (\<lambda>blocked_q.
     py_bind (subscript r ''blocking_pid'') (\<lambda>blocking_session.
     py_bind (subscript r ''blocking_query'') (\<lambda>blocking_q.
     py_bind (subscript r ''wait_time_ms'') (\<lambda>w.
     py_bind (py_round2 w) (\<lambda>wait.
       py_return (PDict
         [kv ''blocked_session'' blocked_session,
          kv ''blocked_query'' blocked_q,
          kv ''blocking_session'' blocking_session,
          kv ''blocking_query'' blocking_q,
          kv ''wait_time_ms'' wait])))))))"

definition check_deadlock_body :: "db \<Rightarrow> string \<Rightarrow> pyval py" where
  "check_deadlock_body d input =
     py_bind (get_db_connection d) (\<lambda>u.
     py_bind (db_check_deadlocks_call d) (\<lambda>deadlocks.
       if deadlocks \<noteq> []
       then py_bind (py_map transaction deadlocks) (\<lambda>transactions.
              py_return (PDict
                [kv ''success'' (PBool True),
                 kv ''input'' (PStr input),
                 kv ''deadlocks_detected'' (PBool True),
                 kv ''status'' (PStr ''ACTIVE DEADLOCK DETECTED''),
                 kv ''deadlock_count'' (PInt (int (length deadlocks))),
                 kv ''transactions'' (PList transactions),
                 kv ''recommendation''
                    (PStr ''Review blocking queries and consider terminating long-running transactions'')]))
       else py_return (PDict
                [kv ''success'' (PBool True),
                 kv ''input'' (PStr input),
                 kv ''deadlocks_detected'' (PBool False),
                 kv ''status'' (PStr ''NO ACTIVE DEADLOCK''),
                 kv ''message'' (PStr ''No deadlocks or blocking sessions detected'')])))"

definition check_deadlock :: "db \<Rightarrow> string \<Rightarrow> pyval py" where
  "check_deadlock d input =
     py_try (check_deadlock_body d input) (on_exception ''Deadlock check error: '')"

subsection \<open>\<open>check_file_size\<close> (lines 184-233)\<close>

text \<open>
  \<open>size_mb / max_size_mb\<close> is the first operation on \<open>size_mb\<close>: it raises a
  \<open>TypeError\<close> unless \<open>size_mb\<close> is a number, and from there on the arithmetic is on
  floats. \<open>growth_rate_mb > 0\<close> is the comparison of the constant 15.0 with 0.
\<close>

definition check_file_size_body :: "db \<Rightarrow> string \<Rightarrow> pyval py" where
  "check_file_size_body d input =
     py_bind (get_db_connection d) (\<lambda>u.
     py_bind (get_database_size d) (\<lambda>size_info.
     py_bind (subscript size_info ''size_mb'') (\<lambda>size_mb.
     py_bind (py_num size_mb) (\<lambda>x.
       let max_size_mb = 2048;
           usage_percent = round2 (x / of_int max_size_mb * 100);
           status = (if 90 \<le> usage_percent then ''CRITICAL''
                     else if 75 \<le> usage_percent then ''WARNING''
                     else ''NORMAL'');
           growth_rate_mb = (15 :: rat);
           estimated_days = (if 0 < growth_rate_mb
                             then trunc ((of_int max_size_mb - x) / growth_rate_mb) else 999)
       in py_bind (subscript size_info ''database_name'') (\<lambda>database_name.
          py_bind (subscript size_info ''size_mb'') (\<lambda>current_size_mb.
          py_bind (subscript size_info ''size_gb'') (\<lambda>current_size_gb.
            py_return (PDict
              [kv ''success'' (PBool True),
               kv ''input'' (PStr input),
               kv ''database'' database_name,
               kv ''current_size_mb'' current_size_mb,
               kv ''current_size_gb'' current_size_gb,
               kv ''max_size_mb'' (PInt max_size_mb),
               kv ''usage_percent'' (PFloat usage_percent),
               kv ''growth_rate_mb_per_day'' (PFloat growth_rate_mb),
               kv ''estimated_days_until_full'' (PInt estimated_days),
               kv ''status'' (PStr status),
               kv ''recommendations''
                  (strings (get_size_recommendations usage_percent estimated_days))]))))))))"

definition check_file_size :: "db \<Rightarrow> string \<Rightarrow> pyval py" where
  "check_file_size d input =
     py_try (check_file_size_body d input) (on_exception ''File size check error: '')"

subsection \<open>\<open>check_abnormal_data\<close> (lines 235-331)\<close>

definition negative_orders_query :: string where
  "negative_orders_query =
     ''SELECT order_id, customer_id, total_amount, status FROM orders WHERE total_amount < 0 LIMIT 10;''"

definition excessive_inventory_query :: string where
  "excessive_inventory_query =
     ''SELECT product_id, product_name, current_stock, max_threshold FROM inventory WHERE current_stock > max_threshold LIMIT 10;''"

definition negative_transactions_query :: string where
  "negative_transactions_query =
     ''SELECT log_id, transaction_type, amount, customer_id, created_at FROM transaction_log WHERE amount < -100 LIMIT 10;''"

text \<open>\<open>sum(r[k] for r in rs)\<close>: each element is read, then added, before the next is read.\<close>

definition sum_of :: "string \<Rightarrow> row list \<Rightarrow> pyval py" where
  "sum_of k rs = py_for (\<lambda>acc r. py_bind (subscript r k) (\<lambda>v. py_add acc v)) (PInt 0) rs"

text \<open>
  Each of the three checks has the same form: when the table is selected, run the query
  and, if it returns rows, append one anomaly with their number and the first three.
\<close>

definition check_table ::
    "db \<Rightarrow> bool \<Rightarrow> string \<Rightarrow> string \<Rightarrow> string \<Rightarrow> string \<Rightarrow> row list \<Rightarrow> row list py" where
  "check_table d selected q tbl anomaly_type severity anomalies =
     (if selected
      then py_bind (execute_query d q []) (\<lambda>records.
             py_return
               (if records \<noteq> []
                then anomalies @
                       [[kv ''table'' (PStr tbl),
                         kv ''anomaly_type'' (PStr anomaly_type),
                         kv ''severity'' (PStr severity),
                         kv ''affected_count'' (PInt (int (length records))),
                         kv ''sample_records'' (dicts (take 3 records))]]
                else anomalies))
      else py_return anomalies)"

definition check_abnormal_data_body :: "db \<Rightarrow> string \<Rightarrow> pyval py" where
  "check_abnormal_data_body d tables =
     py_bind (get_db_connection d) (\<lambda>u.
       let tables_lower = lower tables
       in py_bind (check_table d (tables_lower \<in> set [''all'', ''orders''])
                     negative_orders_query ''orders''
                     ''Negative order amounts detected'' ''HIGH'' []) (\<lambda>anomalies.
          py_bind (check_table d (tables_lower \<in> set [''all'', ''inventory''])
                     excessive_inventory_query ''inventory''
                     ''Stock count exceeds maximum threshold'' ''MEDIUM'' anomalies) (\<lambda>anomalies.
          py_bind (check_table d
                     (tables_lower \<in> set [''all'', ''transactions'', ''transaction_log''])
                     negative_transactions_query ''transaction_log''
                     ''Large negative transactions detected'' ''HIGH'' anomalies) (\<lambda>anomalies.
            if anomalies \<noteq> []
            then py_bind (sum_of ''affected_count'' anomalies) (\<lambda>total_affected_rows.
                   py_return (PDict
                     [kv ''success'' (PBool True),
                      kv ''tables_checked'' (PStr tables),
                      kv ''has_abnormal_data'' (PBool True),
                      kv ''status'' (PStr ''ABNORMAL DATA DETECTED''),
                      kv ''anomaly_count'' (PInt (int (length anomalies))),
                      kv ''total_affected_rows'' total_affected_rows,
                      kv ''anomalies'' (dicts anomalies),
                      kv ''recommendations''
                         (strings [''Review data validation rules'',
                                   ''Investigate data entry processes'',
                                   ''Consider implementing CHECK constraints''])]))
            else py_return (PDict
                     [kv ''success'' (PBool True),
                      kv ''tables_checked'' (PStr tables),
                      kv ''has_abnormal_data'' (PBool False),
                      kv ''status'' (PStr ''NORMAL''),
                      kv ''message'' (PStr (''No data anomalies detected in '' @ tables))])))))"

definition check_abnormal_data :: "db \<Rightarrow> string \<Rightarrow> pyval py" where
  "check_abnormal_data d tables =
     py_try (check_abnormal_data_body d tables) (on_exception ''Abnormal data check error: '')"

subsection \<open>\<open>check_batch_data\<close> (lines 333-427)\<close>

definition batch_jobs_query :: string where
  "batch_jobs_query =
     ''SELECT batch_id, job_type, total_records, processed_records, failed_records, status, started_at, completed_at FROM batch_jobs WHERE failed_records > 0 AND started_at >= NOW() - INTERVAL '%s hours' ORDER BY started_at DESC LIMIT %s;''"

fun join_comma :: "string list \<Rightarrow> string" where
  "join_comma [] = []"
| "join_comma [s] = s"
| "join_comma (s # ss) = s @ '','' @ join_comma ss"

definition error_query :: "nat \<Rightarrow> string" where
  "error_query n =
     ''SELECT batch_id, error_type, COUNT(*) as error_count FROM batch_errors WHERE batch_id IN (''
     @ join_comma (replicate n ''%s'') @ '') GROUP BY batch_id, error_type;''"

text \<open>
  One turn of the loop of lines 384-388. In the assignment of line 388 Python evaluates
  the right-hand side first. The batch ids are values of an integer column; that a key
  must be hashable is not modelled.
\<close>

definition add_failure_reason :: "row \<Rightarrow> row \<Rightarrow> row py" where
  "add_failure_reason failure_reasons_map error =
     py_bind (subscript error ''batch_id'') (\<lambda>bid.
       let m = (if \<not> dict_has failure_reasons_map bid
                then dict_set failure_reasons_map bid (PDict []) else failure_reasons_map)
       in py_bind (subscript error ''error_count'') (\<lambda>error_count.
          py_bind (subscript error ''error_type'') (\<lambda>error_type.
            py_return
              (dict_set m bid
                 (PDict (dict_set (case dict_get m bid (PDict []) of PDict reasons \<Rightarrow> reasons | v \<Rightarrow> [])
                           error_type error_count))))))"

text \<open>Line 392, for one batch.\<close>

definition enrich :: "row \<Rightarrow> row \<Rightarrow> row py" where
  "enrich failure_reasons_map batch =
     py_bind (subscript batch ''batch_id'') (\<lambda>bid.
       py_return (dict_set batch (PStr ''failure_reasons'')
                    (dict_get failure_reasons_map bid (PDict []))))"

text \<open>
  Line 396: \<open>round((total_failed / total_processed) * 100, 2) if total_processed > 0 else 0\<close>.
\<close>

definition failure_rate :: "pyval \<Rightarrow> pyval \<Rightarrow> pyval py" where
  "failure_rate total_failed total_processed =
     py_bind (py_gt total_processed 0) (\<lambda>positive.
       if positive
       then py_bind (py_truediv total_failed total_processed) (\<lambda>ratio.
            py_bind (py_mul ratio (PInt 100)) (\<lambda>percent.
              py_round2 percent))
       else py_return (PInt 0))"

definition check_batch_data_body :: "db \<Rightarrow> int \<Rightarrow> int \<Rightarrow> pyval py" where
  "check_batch_data_body d hours limit =
     py_bind (get_db_connection d) (\<lambda>u.
     py_bind (execute_query d batch_jobs_query [PInt hours, PInt limit]) (\<lambda>batch_issues.
       if batch_issues \<noteq> []
       then
         py_bind (py_map (\<lambda>b. subscript b ''batch_id'') batch_issues) (\<lambda>batch_ids.
         py_bind (execute_query d (error_query (length batch_ids)) batch_ids) (\<lambda>error_breakdown.
         py_bind (py_for add_failure_reason [] error_breakdown) (\<lambda>failure_reasons_map.
         py_bind (py_map (enrich failure_reasons_map) batch_issues) (\<lambda>batch_issues.
         py_bind (sum_of ''processed_records'' batch_issues) (\<lambda>total_processed.
         py_bind (sum_of ''failed_records'' batch_issues) (\<lambda>total_failed.
         py_bind (failure_rate total_failed total_processed) (\<lambda>rate.
           py_return (PDict
             [kv ''success'' (PBool True),
              kv ''time_window_hours'' (PInt hours),
              kv ''limit'' (PInt limit),
              kv ''has_abnormal_data'' (PBool True),
              kv ''status'' (PStr ''BATCH ISSUES DETECTED''),
              kv ''total_batches_analyzed'' (PInt (int (length batch_issues))),
              kv ''total_records_processed'' total_processed,
              kv ''total_failed_records'' total_failed,
              kv ''failure_rate_percent'' rate,
              kv ''batch_details'' (dicts batch_issues),
              kv ''recommendations''
                 (strings [''Review batch processing logs'',
                           ''Implement retry mechanism for transient failures'',
                           ''Validate data before batch processing''])]))))))))
       else py_return (PDict
             [kv ''success'' (PBool True),
              kv ''time_window_hours'' (PInt hours),
              kv ''limit'' (PInt limit),
              kv ''has_abnormal_data'' (PBool False),
              kv ''status'' (PStr ''NORMAL''),
              kv ''message''
                 (PStr (''No batch failures detected in last '' @ str_int hours @ '' hours''))])))"

definition check_batch_data :: "db \<Rightarrow> int \<Rightarrow> int \<Rightarrow> pyval py" where
  "check_batch_data d hours limit =
     py_try (check_batch_data_body d hours limit) (on_exception ''Batch data check error: '')"

subsection \<open>The registered tools (lines 434-507)\<close>

text \<open>\<open>bool(v)\<close>.\<close>

fun truthy :: "pyval \<Rightarrow> bool" where
  "truthy PNone = False"
| "truthy (PBool b) = b"
| "truthy (PInt i) = (i \<noteq> 0)"
| "truthy (PFloat x) = (x \<noteq> 0)"
| "truthy (PStr s) = (s \<noteq> [])"
| "truthy (PList vs) = (vs \<noteq> [])"
| "truthy (PDict kvs) = (kvs \<noteq> [])"

text \<open>
  The tool \<open>check_query_response_time\<close> calls the agent and then, for a threshold other
  than 1000.0 and a successful result, overrides the threshold and, when the result has
  the key \<open>is_slow\<close>, the verdict. No handler surrounds these lines.
\<close>

definition tool_check_query_response_time :: "db \<Rightarrow> string \<Rightarrow> rat \<Rightarrow> pyval py" where
  "tool_check_query_response_time d query_text threshold_ms =
     py_bind (check_query_response_time d query_text) (\<lambda>result.
       case result of
         PDict r \<Rightarrow>
           if threshold_ms \<noteq> 1000 \<and> truthy (dict_get r (PStr ''success'') PNone)
           then
             let r1 = dict_set r (PStr ''threshold_ms'') (PFloat threshold_ms)
             in if dict_has r1 (PStr ''is_slow'')
                then py_bind (py_gt (dict_get r1 (PStr ''response_time_ms'') (PInt 0)) threshold_ms)
                       (\<lambda>is_slow.
                          py_return (PDict
                            (dict_set (dict_set r1 (PStr ''is_slow'') (PBool is_slow))
                               (PStr ''status'') (PStr (if is_slow then ''SLOW'' else ''NORMAL'')))))
                else py_return (PDict r1)
           else py_return result
       | v \<Rightarrow> py_return result)"

definition tool_check_deadlock :: "db \<Rightarrow> pyval py" where
  "tool_check_deadlock d = check_deadlock d ''check''"

definition tool_check_file_size :: "db \<Rightarrow> pyval py" where
  "tool_check_file_size d = check_file_size d ''check''"

definition tool_check_abnormal_data :: "db \<Rightarrow> string \<Rightarrow> pyval py" where
  "tool_check_abnormal_data d tables = check_abnormal_data d tables"

definition tool_check_batch_data :: "db \<Rightarrow> int \<Rightarrow> int \<Rightarrow> pyval py" where
  "tool_check_batch_data d hours limit = check_batch_data d hours limit"

subsection \<open>What is said of a result\<close>

text \<open>
  The status vocabulary as the specification lists it, and the statuses the tools write.
\<close>

definition spec_statuses :: "string list" where
  "spec_statuses = [''NORMAL'', ''WARNING'', ''SLOW'', ''DEADLOCK_DETECTED'', ''ABNORMAL'', ''ERROR'']"

definition code_statuses :: "string list" where
  "code_statuses =
     [''NORMAL'', ''WARNING'', ''CRITICAL'', ''SLOW'', ''SLOW QUERIES DETECTED'',
      ''ACTIVE DEADLOCK DETECTED'', ''NO ACTIVE DEADLOCK'', ''ABNORMAL DATA DETECTED'',
      ''BATCH ISSUES DETECTED'']"

definition succeeded :: "pyval \<Rightarrow> bool" where
  "succeeded r \<longleftrightarrow> field r ''success'' = Some (PBool True)"

definition is_failure :: "pyval \<Rightarrow> bool" where
  "is_failure r \<longleftrightarrow>
     (case field r ''error'' of
        Some (PStr m) \<Rightarrow> r = PDict [kv ''success'' (PBool False), kv ''error'' (PStr m)]
      | _ \<Rightarrow> False)"

definition has_status :: "string list \<Rightarrow> pyval \<Rightarrow> bool" where
  "has_status vocabulary r \<longleftrightarrow>
     (case field r ''status'' of Some (PStr st) \<Rightarrow> st \<in> set vocabulary | _ \<Rightarrow> False)"

text \<open>
  A tool answers when it returns, to its caller, a success envelope or a failure envelope;
  it handles when an exception of its body comes back as the failure envelope of that
  exception.
\<close>

definition answers :: "pyval py \<Rightarrow> call list \<Rightarrow> bool" where
  "answers tool l \<longleftrightarrow>
     (case fst (tool l) of Inl e \<Rightarrow> False | Inr r \<Rightarrow> succeeded r \<or> is_failure r)"

definition handles :: "pyval py \<Rightarrow> pyval py \<Rightarrow> call list \<Rightarrow> bool" where
  "handles body tool l \<longleftrightarrow>
     (case fst (body l) of Inl e \<Rightarrow> fst (tool l) = Inr (failure e) | Inr r \<Rightarrow> True)"

definition reports :: "string list \<Rightarrow> pyval py \<Rightarrow> call list \<Rightarrow> bool" where
  "reports vocabulary tool l \<longleftrightarrow>
     (case fst (tool l) of
        Inl e \<Rightarrow> False
      | Inr r \<Rightarrow> if is_failure r then field r ''status'' = None else has_status vocabulary r)"

definition ensures :: "'a py \<Rightarrow> ('a \<Rightarrow> bool) \<Rightarrow> bool" where
  "ensures m P \<longleftrightarrow> (\<forall>l x l'. m l = (Inr x, l') \<longrightarrow> P x)"

subsection \<open>Databases for the examples\<close>

definition refused :: py_exn where
  "refused = DatabaseError ''connection refused''"

definition unreachable :: db where
  "unreachable =
     \<lparr> db_connect = Some refused,
       db_execute_timed_query = (\<lambda>q. Inl refused),
       db_execute_query = (\<lambda>q params. Inl refused),
       db_get_slow_queries = (\<lambda>t. Inl refused),
       db_check_deadlocks = Inl refused,
       db_get_database_size = Inl refused \<rparr>"

definition idle :: db where
  "idle =
     \<lparr> db_connect = None,
       db_execute_timed_query = (\<lambda>q. Inr ([], 5)),
       db_execute_query = (\<lambda>q params. Inr []),
       db_get_slow_queries = (\<lambda>t. Inr []),
       db_check_deadlocks = Inr [],
       db_get_database_size =
         Inr [kv ''database_name'' (PStr ''testdb''), kv ''size_mb'' (PFloat 512),
              kv ''size_gb'' (PFloat (1 / 2))] \<rparr>"

text \<open>A batch that failed before it processed any record.\<close>

definition stalled_batch :: row where
  "stalled_batch =
     [kv ''batch_id'' (PInt 7), kv ''job_type'' (PStr ''import''),
      kv ''total_records'' (PInt 40), kv ''processed_records'' (PInt 0),
      kv ''failed_records'' (PInt 3), kv ''status'' (PStr ''FAILED'')]"

definition stalled :: db where
  "stalled = idle\<lparr>db_execute_query :=
     (\<lambda>q params. if q = batch_jobs_query then Inr [stalled_batch] else Inr [])\<rparr>"

text \<open>A success envelope with a status the tools write.\<close>

definition well_formed :: "pyval \<Rightarrow> bool" where
  "well_formed r \<longleftrightarrow> succeeded r \<and> has_status code_statuses r"

text \<open>
  The results of \<open>check_query_response_time\<close> that carry the key \<open>is_slow\<close> carry a
  float under \<open>response_time_ms\<close>.
\<close>

definition timed :: "pyval \<Rightarrow> bool" where
  "timed r \<longleftrightarrow>
     (case r of
        PDict kvs \<Rightarrow>
          well_formed r \<and>
          (dict_has kvs (PStr ''is_slow'') \<longrightarrow> num_of (dict_get kvs (PStr ''response_time_ms'') PNone) \<noteq> None)
      | v \<Rightarrow> False)"

text \<open>
  A report that carries \<open>total_records_processed\<close> equal to zero carries
  \<open>failure_rate_percent\<close> equal to the \<open>int\<close> 0.
\<close>

definition rate_guarded :: "pyval \<Rightarrow> bool" where
  "rate_guarded r \<longleftrightarrow>
     (case field r ''total_records_processed'' of
        Some total_processed \<Rightarrow>
          num_of total_processed = Some 0 \<longrightarrow>
          field r ''failure_rate_percent'' = Some (PInt 0)
      | None \<Rightarrow> True)"

definition known_scopes :: "string list" where
  "known_scopes = [''all'', ''orders'', ''inventory'', ''transactions'', ''transaction_log'']"

section \<open>What \<open>check_deadlocks\<close> hands to its caller (db\_connection.py)\<close>

text \<open>
  The values psycopg2 yields for a row: those of Python, with \<open>Decimal\<close> for the SQL type
  \<open>numeric\<close>. A row of \<open>RealDictCursor\<close> is a dict from column names to such values.
\<close>

datatype dbval =
    DNone
  | DBool bool
  | DInt int
  | DFloat rat
  | DDecimal rat
  | DStr string
  | DList "dbval list"
  | DDict "(string \<times> dbval) list"

text \<open>
  \<open>convert_decimals\<close> (lines 15-23): a \<open>Decimal\<close> becomes a \<open>float\<close>, the values of a
  dict and the items of a list are converted in place, anything else is returned as it is.
\<close>

fun convert_decimals :: "dbval \<Rightarrow> pyval" where
  "convert_decimals (DDecimal x) = PFloat x"
| "convert_decimals (DDict kvs) = PDict (map (\<lambda>(k, v). (PStr k, convert_decimals v)) kvs)"
| "convert_decimals (DList vs) = PList (map convert_decimals vs)"
| "convert_decimals DNone = PNone"
| "convert_decimals (DBool b) = PBool b"
| "convert_decimals (DInt i) = PInt i"
| "convert_decimals (DFloat x) = PFloat x"
| "convert_decimals (DStr s) = PStr s"

text \<open>
  A row of the statement as the cursor yields it, the columns in the order of the select
  list. \<open>EXTRACT(EPOCH FROM ...) * 1000\<close> is of type \<open>numeric\<close>.
\<close>

definition sql_text :: "string option \<Rightarrow> dbval" where
  "sql_text t = (case t of None \<Rightarrow> DNone | Some x \<Rightarrow> DStr x)"

definition sql_numeric :: "rat option \<Rightarrow> dbval" where
  "sql_numeric n = (case n of None \<Rightarrow> DNone | Some x \<Rightarrow> DDecimal x)"

definition fetched_row :: "deadlock_row \<Rightarrow> (string \<times> dbval) list" where
  "fetched_row r =
     [(''blocked_pid'', DInt (blocked_pid r)),
      (''blocked_user'', sql_text (blocked_user r)),
      (''blocked_query'', sql_text (blocked_query r)),
      (''blocking_pid'', DInt (blocking_pid r)),
      (''blocking_user'', sql_text (blocking_user r)),
      (''blocking_query'', sql_text (blocking_query r)),
      (''wait_time_ms'', sql_numeric (wait_time_ms r))]"

text \<open>
  The statement has no \<open>ORDER BY\<close>, so SQL leaves the order of its rows to the engine:
  \<open>cur.fetchall()\<close> gives the rows of the statement, each as often as the joins produce
  it, in an order of the engine's choosing. \<open>produced\<close> is such a list.
\<close>

definition engine_may_produce ::
    "rat \<Rightarrow> pg_stat_activity list \<Rightarrow> pg_lock list \<Rightarrow> deadlock_row list \<Rightarrow> bool" where
  "engine_may_produce now activity locks produced \<longleftrightarrow>
     mset produced = mset (check_deadlocks now activity locks)"

text \<open>
  Lines 157-159: \<open>return convert_decimals(cur.fetchall())\<close>, for the rows the engine
  produced.
\<close>

definition check_deadlocks_returns :: "deadlock_row list \<Rightarrow> pyval" where
  "check_deadlocks_returns produced =
     convert_decimals (DList (map (\<lambda>r. DDict (fetched_row r)) produced))"

text \<open>
  Reading the returned list: its rows, and of a row who is blocked, by whom, and for how
  long. \<open>descending\<close> is the order of \<open>ORDER BY ... DESC\<close>, nulls first.
\<close>

definition returned_rows :: "pyval \<Rightarrow> pyval list" where
  "returned_rows v = (case v of PList vs \<Rightarrow> vs | other \<Rightarrow> [])"

definition row_wait :: "pyval \<Rightarrow> rat option" where
  "row_wait v = (case field v ''wait_time_ms'' of Some w \<Rightarrow> num_of w | None \<Rightarrow> None)"

definition row_edge :: "pyval \<Rightarrow> pyval option \<times> pyval option \<times> rat option" where
  "row_edge v = (field v ''blocked_pid'', field v ''blocking_pid'', row_wait v)"

definition edge_of :: "deadlock_row \<Rightarrow> pyval option \<times> pyval option \<times> rat option" where
  "edge_of r = (Some (PInt (blocked_pid r)), Some (PInt (blocking_pid r)), wait_time_ms r)"

definition null_first_ge :: "rat option \<Rightarrow> rat option \<Rightarrow> bool" where
  "null_first_ge a b =
     (case (a, b) of
        (None, _) \<Rightarrow> True
      | (Some x, None) \<Rightarrow> False
      | (Some x, Some y) \<Rightarrow> y \<le> x)"

definition descending :: "rat option list \<Rightarrow> bool" where
  "descending ws = sorted_wrt null_first_ge ws"

text \<open>
  The injected contention with the two waits exchanged: session 202 has waited for 9 s
  and session 303 for 5 s.
\<close>

definition swapped_activity :: "pg_stat_activity list" where
  "swapped_activity = [session 101 90, session 202 91, session 303 95]"

section \<open>Properties of the session handle\<close>

text \<open>
  C8. \<open>disconnect\<close> is idempotent: from every state of the handle, a second call in
  succession leaves the state the first call produced, and performs no action at all
  (nothing is closed, nothing logged, and the model of the method has no failing branch).
\<close>

theorem disconnect_idempotent:
  "fst (disconnect (fst (disconnect self))) = fst (disconnect self) \<and>
   snd (disconnect (fst (disconnect self))) = []"
  by (simp add: disconnect_def split: option.split)

section \<open>Properties of the detector\<close>

subsection \<open>When a join condition holds\<close>

lemma sql_true_and: "sql_true (sql_and a b) \<longleftrightarrow> sql_true a \<and> sql_true b"
  by (auto simp: sql_true_def sql_and_def)

lemma sql_true_eq: "sql_true (sql_eq a b) \<longleftrightarrow> a \<noteq> None \<and> a = b"
  by (auto simp: sql_true_def sql_eq_def split: option.splits)

lemma sql_true_neq: "sql_true (sql_neq a b) \<longleftrightarrow> a \<noteq> None \<and> b \<noteq> None \<and> a \<noteq> b"
  by (auto simp: sql_true_def sql_neq_def split: option.splits)

lemma sql_true_not_distinct: "sql_true (is_not_distinct_from a b) \<longleftrightarrow> a = b"
  by (simp add: sql_true_def is_not_distinct_from_def)

lemma sql_true_locks_join_on:
  "sql_true (locks_join_on a b) \<longleftrightarrow>
     same_resource a b \<and> lock_pid a \<noteq> None \<and> lock_pid b \<noteq> None \<and> lock_pid a \<noteq> lock_pid b"
  unfolding locks_join_on_def same_resource_def sql_true_and sql_true_eq sql_true_neq
    sql_true_not_distinct
  by auto

lemma sql_true_where_clause: "sql_true (where_clause a b) \<longleftrightarrow> \<not> granted a \<and> granted b"
  by (auto simp: where_clause_def sql_true_def sql_and_def sql_not_def)

subsection \<open>The rows of the joins\<close>

lemma in_concat_map: "e \<in> set (concat (map g xs)) \<longleftrightarrow> (\<exists>x \<in> set xs. e \<in> set (g x))"
  by auto

lemma in_if_nil: "e \<in> set (if P then xs else []) \<longleftrightarrow> P \<and> e \<in> set xs"
  by auto

lemma check_deadlocks_unfold:
  "e \<in> set (check_deadlocks now activity locks) \<longleftrightarrow>
     (\<exists>blocked \<in> set activity. \<exists>req \<in> set locks.
        lock_pid req = Some (pid blocked) \<and>
        (\<exists>held \<in> set locks.
           (same_resource req held \<and> lock_pid req \<noteq> None \<and> lock_pid held \<noteq> None \<and>
            lock_pid req \<noteq> lock_pid held) \<and>
           (\<exists>blocking \<in> set activity.
              (lock_pid held = Some (pid blocking) \<and> \<not> granted req \<and> granted held) \<and>
              e = select_list now blocked blocking)))"
  unfolding check_deadlocks_def in_concat_map in_if_nil sql_true_locks_join_on
    sql_true_where_clause sql_true_eq
  by (simp add: eq_commute [of "Some _" "lock_pid _"])

lemma check_deadlocks_iff:
  "e \<in> set (check_deadlocks now activity locks) \<longleftrightarrow> contention_edge now activity locks e"
  unfolding check_deadlocks_unfold contention_edge_def
  by fastforce

lemma contention_edge_distinct:
  "contention_edge now activity locks e \<Longrightarrow> blocked_pid e \<noteq> blocking_pid e"
  by (auto simp: contention_edge_def select_list_def)

lemma check_deadlocks_all_clear:
  assumes "\<not> conflicting_request locks"
  shows "check_deadlocks now activity locks = []"
proof -
  have "e \<notin> set (check_deadlocks now activity locks)" for e
  proof
    assume "e \<in> set (check_deadlocks now activity locks)"
    then have "conflicting_request locks"
      unfolding check_deadlocks_unfold conflicting_request_def by blast
    with assms show False by simp
  qed
  then show ?thesis by (cases "check_deadlocks now activity locks") auto
qed

lemma pair_rows: "check_deadlocks 100 pair_activity pair_locks = [edge 202 101 5000]"
  by (simp add: check_deadlocks_def pair_activity_def pair_locks_def session_def
      xid_lock_def relation_lock_def edge_def select_list_def sql_true_locks_join_on
      sql_true_where_clause sql_true_eq same_resource_def)

lemma idle_no_conflict: "\<not> conflicting_request idle_locks"
  by (simp add: conflicting_request_def idle_locks_def xid_lock_def relation_lock_def
      same_resource_def)

text \<open>
  C1. For every state of the lock table and of the active-session table, the rows
  \<open>check_deadlocks\<close> returns are exactly the contention edges: an ungranted request of an
  active session paired with a granted request on the same full resource descriptor (null
  fields equal to null fields) held by a different active session. No returned row has
  \<open>blocked_pid\<close> equal to \<open>blocking_pid\<close>, and the result is empty when the lock table
  holds no ungranted request that conflicts with a granted one.
\<close>

theorem check_deadlocks_exact:
  "set (check_deadlocks now activity locks) = {e. contention_edge now activity locks e} \<and>
   (\<forall>e \<in> set (check_deadlocks now activity locks). blocked_pid e \<noteq> blocking_pid e) \<and>
   (\<not> conflicting_request locks \<longrightarrow> check_deadlocks now activity locks = [])"
proof (intro conjI)
  show "set (check_deadlocks now activity locks) = {e. contention_edge now activity locks e}"
    using check_deadlocks_iff by blast
  show "\<forall>e \<in> set (check_deadlocks now activity locks). blocked_pid e \<noteq> blocking_pid e"
    using check_deadlocks_iff contention_edge_distinct by blast
  show "\<not> conflicting_request locks \<longrightarrow> check_deadlocks now activity locks = []"
    using check_deadlocks_all_clear by blast
qed

theorem check_deadlocks_exact_witness:
  "check_deadlocks 100 pair_activity pair_locks = [edge 202 101 5000] \<and>
   {e. contention_edge 100 pair_activity pair_locks e} = {edge 202 101 5000} \<and>
   blocked_pid (edge 202 101 5000) \<noteq> blocking_pid (edge 202 101 5000) \<and>
   \<not> conflicting_request idle_locks \<and>
   check_deadlocks 100 pair_activity idle_locks = []"
  using check_deadlocks_exact [of 100 pair_activity pair_locks]
    check_deadlocks_exact [of 100 pair_activity idle_locks]
  by (simp add: pair_rows idle_no_conflict)

subsection \<open>The order of the rows\<close>

lemma trio_rows:
  "check_deadlocks 100 trio_activity trio_locks = [edge 202 101 5000, edge 303 101 9000]"
  by (simp add: check_deadlocks_def trio_activity_def trio_locks_def session_def
      xid_lock_def edge_def select_list_def sql_true_locks_join_on
      sql_true_where_clause sql_true_eq same_resource_def)

lemma swapped_rows:
  "check_deadlocks 100 swapped_activity trio_locks = [edge 202 101 9000, edge 303 101 5000]"
  by (simp add: check_deadlocks_def swapped_activity_def trio_locks_def session_def
      xid_lock_def edge_def select_list_def sql_true_locks_join_on
      sql_true_where_clause sql_true_eq same_resource_def)

lemma returned_rows_eq:
  "returned_rows (check_deadlocks_returns produced) =
     map (\<lambda>r. convert_decimals (DDict (fetched_row r))) produced"
  by (simp add: returned_rows_def check_deadlocks_returns_def comp_def
      del: convert_decimals.simps(2))

lemma returned_rows_empty:
  "returned_rows (check_deadlocks_returns produced) = [] \<longleftrightarrow> produced = []"
  unfolding returned_rows_eq by simp

lemma row_wait_converted: "row_wait (convert_decimals (DDict (fetched_row r))) = wait_time_ms r"
  by (cases "wait_time_ms r")
     (simp_all add: row_wait_def field_def fetched_row_def sql_numeric_def)

lemma row_edge_converted: "row_edge (convert_decimals (DDict (fetched_row r))) = edge_of r"
  unfolding row_edge_def edge_of_def row_wait_converted
  by (simp add: field_def fetched_row_def)

lemma returned_edges:
  "map row_edge (returned_rows (check_deadlocks_returns produced)) = map edge_of produced"
  unfolding returned_rows_eq
  by (simp add: row_edge_converted comp_def del: convert_decimals.simps(2))

lemma returned_waits:
  "map row_wait (returned_rows (check_deadlocks_returns produced)) = map wait_time_ms produced"
  unfolding returned_rows_eq
  by (simp add: row_wait_converted comp_def del: convert_decimals.simps(2))

lemma wait_ge_null_first: "wait_ge a b = null_first_ge (wait_time_ms a) (wait_time_ms b)"
  by (simp add: wait_ge_def null_first_ge_def)

lemma descending_waits: "descending (map wait_time_ms produced) \<longleftrightarrow> ordered_by_wait_desc produced"
proof -
  have "wait_ge = (\<lambda>a b. null_first_ge (wait_time_ms a) (wait_time_ms b))"
    by (intro ext) (rule wait_ge_null_first)
  then show ?thesis
    by (simp add: descending_def ordered_by_wait_desc_def sorted_wrt_map)
qed

text \<open>
  C2, as stated: whenever the detector returns rows, they are ordered by \<open>wait_time_ms\<close>
  descending. It fails. With session 202 waiting for 5 s and session 303 for 9 s, the
  engine may produce the row of 202 first, and the list is returned as produced, shortest
  wait first. An engine that always produces the row of 303 first returns the shortest
  wait first when the two waits are exchanged.
\<close>

theorem check_deadlocks_not_ordered:
  "engine_may_produce 100 trio_activity trio_locks [edge 202 101 5000, edge 303 101 9000] \<and>
   returned_rows (check_deadlocks_returns [edge 202 101 5000, edge 303 101 9000]) \<noteq> [] \<and>
   \<not> descending (map row_wait
         (returned_rows (check_deadlocks_returns [edge 202 101 5000, edge 303 101 9000]))) \<and>
   engine_may_produce 100 swapped_activity trio_locks [edge 303 101 5000, edge 202 101 9000] \<and>
   returned_rows (check_deadlocks_returns [edge 303 101 5000, edge 202 101 9000]) \<noteq> [] \<and>
   \<not> descending (map row_wait
         (returned_rows (check_deadlocks_returns [edge 303 101 5000, edge 202 101 9000])))"
  by (simp add: engine_may_produce_def trio_rows swapped_rows returned_waits
      returned_rows_empty descending_def null_first_ge_def edge_def)

text \<open>
  C2, amended. The statement has no \<open>ORDER BY\<close> and \<open>check_deadlocks\<close> returns
  \<open>convert_decimals(cur.fetchall())\<close>: the returned list holds the rows of the statement
  in the order in which the engine produced them, each row at its position with its
  sessions and its wait, and it is ordered by \<open>wait_time_ms\<close> descending exactly when the
  engine produced the rows in that order.
\<close>

theorem check_deadlocks_engine_order:
  "engine_may_produce now activity locks produced \<Longrightarrow>
   map row_edge (returned_rows (check_deadlocks_returns produced)) = map edge_of produced \<and>
   mset (map row_edge (returned_rows (check_deadlocks_returns produced)))
     = mset (map edge_of (check_deadlocks now activity locks)) \<and>
   (descending (map row_wait (returned_rows (check_deadlocks_returns produced)))
      \<longleftrightarrow> ordered_by_wait_desc produced)"
proof -
  assume may: "engine_may_produce now activity locks produced"
  have "mset (map edge_of produced) = mset (map edge_of (check_deadlocks now activity locks))"
    using may unfolding engine_may_produce_def by (metis mset_map)
  then show ?thesis
    by (simp add: returned_edges returned_waits descending_waits)
qed

theorem check_deadlocks_engine_order_witness:
  "engine_may_produce 100 trio_activity trio_locks [edge 303 101 9000, edge 202 101 5000] \<and>
   ordered_by_wait_desc [edge 303 101 9000, edge 202 101 5000] \<and>
   map row_wait (returned_rows (check_deadlocks_returns [edge 303 101 9000, edge 202 101 5000]))
     = [Some 9000, Some 5000] \<and>
   descending (map row_wait
     (returned_rows (check_deadlocks_returns [edge 303 101 9000, edge 202 101 5000]))) \<and>
   engine_may_produce 100 trio_activity trio_locks [edge 202 101 5000, edge 303 101 9000] \<and>
   \<not> ordered_by_wait_desc [edge 202 101 5000, edge 303 101 9000] \<and>
   map row_wait (returned_rows (check_deadlocks_returns [edge 202 101 5000, edge 303 101 9000]))
     = [Some 5000, Some 9000] \<and>
   \<not> descending (map row_wait
     (returned_rows (check_deadlocks_returns [edge 202 101 5000, edge 303 101 9000])))"
  using check_deadlocks_engine_order
      [of 100 trio_activity trio_locks "[edge 303 101 9000, edge 202 101 5000]"]
    check_deadlocks_engine_order
      [of 100 trio_activity trio_locks "[edge 202 101 5000, edge 303 101 9000]"]
  by (simp add: engine_may_produce_def trio_rows returned_waits ordered_by_wait_desc_def
      wait_ge_def edge_def)

section \<open>Properties of the coordinator\<close>

lemma closing_suite:
  "seq [cursor_close, conn_close] s =
     (Val (), did ConnClose ((did CursorClose (s\<lparr>cur := Closed\<rparr>))\<lparr>conn := Closed\<rparr>))"
  by (simp add: cursor_close_def conn_close_def)

lemma did_conn [simp]: "conn (did a s) = conn s"
  by (simp add: did_def)

lemma did_cur [simp]: "cur (did a s) = cur s"
  by (simp add: did_def)

lemma did_events [simp]: "events (did a s) = events s"
  by (simp add: did_def)

lemma try_finally_closes:
  assumes "fst (try_finally body (seq [cursor_close, conn_close]) s) \<noteq> Hang"
  shows "conn (snd (try_finally body (seq [cursor_close, conn_close]) s)) = Closed \<and>
         cur (snd (try_finally body (seq [cursor_close, conn_close]) s)) = Closed"
proof (cases "body s")
  case (Pair r s')
  with assms show ?thesis
    by (cases r) (simp_all add: try_finally_def closing_suite del: seq.simps)
qed

lemma try_finally_result:
  "fst (try_finally body (seq [cursor_close, conn_close]) s) = fst (body s)"
proof (cases "body s")
  case (Pair r s')
  then show ?thesis
    by (cases r) (simp_all add: try_finally_def closing_suite del: seq.simps)
qed

lemma handler1_result:
  "fst (txn1_except env e s) =
     (case rollback_out env of Ok \<Rightarrow> Val () | Raises e' \<Rightarrow> Exc e' | Blocks \<Rightarrow> Hang)"
  by (simp add: txn1_except_def print_def rollback_def call_def split: outcome.split)

lemma handler2_result:
  "fst (txn2_except env e s) =
     (case rollback_out env of Ok \<Rightarrow> Val () | Raises e' \<Rightarrow> Exc e' | Blocks \<Rightarrow> Hang)"
  by (simp add: txn2_except_def print_def rollback_def call_def split: outcome.split)

lemma try_except_result:
  assumes "fst (body s) = Exc e"
  shows "fst (try_except body catches handler s) =
           (if catches e then fst (handler e (snd (body s))) else Exc e)"
  using assms by (cases "body s") (simp add: try_except_def)

lemma txn1_guarded_result:
  assumes "fst (txn1_try peer env s) = Exc e"
  shows "fst (txn1_guarded peer env s) =
     (if is_psycopg_error e
      then (case rollback_out env of Ok \<Rightarrow> Val () | Raises e' \<Rightarrow> Exc e' | Blocks \<Rightarrow> Hang)
      else Exc e)"
  unfolding txn1_guarded_def try_finally_result
  by (simp add: try_except_result [of "txn1_try peer env" s e, OF assms] handler1_result)

lemma txn2_guarded_result:
  assumes "fst (txn2_try peer env s) = Exc e"
  shows "fst (txn2_guarded peer env s) =
     (if is_psycopg_error e
      then (case rollback_out env of Ok \<Rightarrow> Val () | Raises e' \<Rightarrow> Exc e' | Blocks \<Rightarrow> Hang)
      else Exc e)"
  unfolding txn2_guarded_def try_finally_result
  by (simp add: try_except_result [of "txn2_try peer env" s e, OF assms] handler2_result)

lemma txn1_closes:
  assumes "fst (txn1 peer env (fresh b)) \<noteq> Hang"
  shows "conn (snd (txn1 peer env (fresh b))) \<noteq> Opened \<and>
         cur (snd (txn1 peer env (fresh b))) \<noteq> Opened \<and>
         (connect_out env = Ok \<longrightarrow>
            conn (snd (txn1 peer env (fresh b))) = Closed \<and>
            cur (snd (txn1 peer env (fresh b))) = Closed)"
proof (cases "connect_out env")
  case Ok
  let ?s = "did Cursor ((did (SetAutocommit False) (did Connect ((fresh b)\<lparr>conn := Opened\<rparr>)))\<lparr>cur := Opened\<rparr>)"
  have run: "txn1 peer env (fresh b) = txn1_guarded peer env ?s"
    using Ok
    by (cases "txn1_guarded peer env ?s"; cases "fst (txn1_guarded peer env ?s)")
       (simp_all add: txn1_def connect_def set_autocommit_def cursor_def)
  show ?thesis
    using assms try_finally_closes unfolding run txn1_guarded_def by (simp add: Ok)
next
  case (Raises e)
  then show ?thesis
    by (simp add: txn1_def connect_def fresh_def)
next
  case Blocks
  then show ?thesis
    by (simp add: txn1_def connect_def fresh_def)
qed

lemma txn2_closes:
  assumes "fst (txn2 peer env (fresh b)) \<noteq> Hang"
  shows "conn (snd (txn2 peer env (fresh b))) \<noteq> Opened \<and>
         cur (snd (txn2 peer env (fresh b))) \<noteq> Opened \<and>
         (connect_out env = Ok \<longrightarrow>
            conn (snd (txn2 peer env (fresh b))) = Closed \<and>
            cur (snd (txn2 peer env (fresh b))) = Closed)"
proof (cases "connect_out env")
  case Ok
  let ?s = "did Cursor ((did (SetAutocommit False) (did Connect ((fresh b)\<lparr>conn := Opened\<rparr>)))\<lparr>cur := Opened\<rparr>)"
  have run: "txn2 peer env (fresh b) = txn2_guarded peer env ?s"
    using Ok
    by (cases "txn2_guarded peer env ?s"; cases "fst (txn2_guarded peer env ?s)")
       (simp_all add: txn2_def connect_def set_autocommit_def cursor_def)
  show ?thesis
    using assms try_finally_closes unfolding run txn2_guarded_def by (simp add: Ok)
next
  case (Raises e)
  then show ?thesis
    by (simp add: txn2_def connect_def fresh_def)
next
  case Blocks
  then show ?thesis
    by (simp add: txn2_def connect_def fresh_def)
qed


subsection \<open>What the scripts do to the events\<close>

lemma seq_keeps_events:
  assumes "\<And>p s. p \<in> set ps \<Longrightarrow> events (snd (p s)) = events s"
  shows "events (snd (seq ps s)) = events s"
  using assms
proof (induction ps arbitrary: s)
  case Nil
  then show ?case by simp
next
  case (Cons p ps)
  have step: "events (snd (p s)) = events s"
    using Cons.prems by simp
  have rest: "events (snd (seq ps s')) = events s'" for s'
    using Cons.IH Cons.prems by simp
  show ?case
  proof (cases "p s")
    case (Pair r s')
    with step rest show ?thesis by (cases r) simp_all
  qed
qed

lemma call_keeps_events: "events (snd (call a out s)) = events s"
  by (cases out) (simp_all add: call_def)

lemma tail1_keeps_events:
  "events (snd (seq [lock2_wait peer, sleep 1, execute q out, commit out'] s)) = events s"
  by (rule seq_keeps_events)
     (auto simp: lock2_wait_def sleep_def execute_def commit_def call_keeps_events)

lemma tail2_keeps_events:
  "events (snd (seq [lock1_wait peer, sleep 1, execute q out, commit out'] s)) = events s"
  by (rule seq_keeps_events)
     (auto simp: lock1_wait_def sleep_def execute_def commit_def call_keeps_events)

lemma txn1_try_events:
  "events (snd (txn1_try peer env s)) =
     (if set_timeout_out env = Ok \<and> first_lock_out env = Ok
      then (events s)\<lparr>lock1_acquired := True\<rparr> else events s)"
proof -
  define rest where "rest = seq [lock2_wait peer, sleep 1,
    execute lock_inventory (second_lock_out env), commit (commit_out env)]"
  have keep: "events (snd (rest s')) = events s'" for s'
    unfolding rest_def by (rule tail1_keeps_events)
  have unroll: "txn1_try peer env s =
      (case execute set_deadlock_timeout (set_timeout_out env) s of
         (Val u, s1) \<Rightarrow>
           (case execute lock_orders (first_lock_out env) s1 of
              (Val u, s2) \<Rightarrow> rest (snd (lock1_set s2))
            | (Exc e, s2) \<Rightarrow> (Exc e, s2)
            | (Hang, s2) \<Rightarrow> (Hang, s2))
       | (Exc e, s1) \<Rightarrow> (Exc e, s1)
       | (Hang, s1) \<Rightarrow> (Hang, s1))"
    unfolding txn1_try_def rest_def
    by (simp add: lock1_set_def split: prod.split res.split)
  show ?thesis
    unfolding unroll
    by (cases "set_timeout_out env"; cases "first_lock_out env")
       (simp_all add: execute_def call_def lock1_set_def keep)
qed

lemma txn2_try_events:
  "events (snd (txn2_try peer env s)) =
     (if set_timeout_out env = Ok \<and> first_lock_out env = Ok
      then (events s)\<lparr>lock2_acquired := True\<rparr> else events s)"
proof -
  define rest where "rest = seq [lock1_wait peer, sleep 1,
    execute lock_orders (second_lock_out env), commit (commit_out env)]"
  have keep: "events (snd (rest s')) = events s'" for s'
    unfolding rest_def by (rule tail2_keeps_events)
  have unroll: "txn2_try peer env s =
      (case execute set_deadlock_timeout (set_timeout_out env) s of
         (Val u, s1) \<Rightarrow>
           (case execute lock_inventory (first_lock_out env) s1 of
              (Val u, s2) \<Rightarrow> rest (snd (lock2_set s2))
            | (Exc e, s2) \<Rightarrow> (Exc e, s2)
            | (Hang, s2) \<Rightarrow> (Hang, s2))
       | (Exc e, s1) \<Rightarrow> (Exc e, s1)
       | (Hang, s1) \<Rightarrow> (Hang, s1))"
    unfolding txn2_try_def rest_def
    by (simp add: lock2_set_def split: prod.split res.split)
  show ?thesis
    unfolding unroll
    by (cases "set_timeout_out env"; cases "first_lock_out env")
       (simp_all add: execute_def call_def lock2_set_def keep)
qed

lemma try_except_events:
  assumes "\<And>e s'. events (snd (handler e s')) = events s'"
  shows "events (snd (try_except body catches handler s)) = events (snd (body s))"
proof (cases "body s")
  case (Pair r s')
  then show ?thesis
    by (cases r) (simp_all add: try_except_def assms)
qed

lemma try_finally_events:
  "events (snd (try_finally body (seq [cursor_close, conn_close]) s)) = events (snd (body s))"
proof (cases "body s")
  case (Pair r s')
  then show ?thesis
    by (cases r) (simp_all add: try_finally_def closing_suite del: seq.simps)
qed

lemma handler1_events: "events (snd (txn1_except env e s)) = events s"
  unfolding txn1_except_def
  by (rule seq_keeps_events) (auto simp: print_def rollback_def call_keeps_events)

lemma handler2_events: "events (snd (txn2_except env e s)) = events s"
  unfolding txn2_except_def
  by (rule seq_keeps_events) (auto simp: print_def rollback_def call_keeps_events)

lemma txn1_guarded_events:
  "events (snd (txn1_guarded peer env s)) =
     (if set_timeout_out env = Ok \<and> first_lock_out env = Ok
      then (events s)\<lparr>lock1_acquired := True\<rparr> else events s)"
  unfolding txn1_guarded_def try_finally_events
  by (simp only: try_except_events [of "txn1_except env", OF handler1_events] txn1_try_events)

lemma txn2_guarded_events:
  "events (snd (txn2_guarded peer env s)) =
     (if set_timeout_out env = Ok \<and> first_lock_out env = Ok
      then (events s)\<lparr>lock2_acquired := True\<rparr> else events s)"
  unfolding txn2_guarded_def try_finally_events
  by (simp only: try_except_events [of "txn2_except env", OF handler2_events] txn2_try_events)

lemma txn1_events:
  "events (snd (txn1 peer env s)) =
     (if signals env then (events s)\<lparr>lock1_acquired := True\<rparr> else events s)"
proof (cases "connect_out env")
  case Ok
  let ?s = "did Cursor ((did (SetAutocommit False) (did Connect (s\<lparr>conn := Opened\<rparr>)))\<lparr>cur := Opened\<rparr>)"
  have run: "txn1 peer env s = txn1_guarded peer env ?s"
    using Ok
    by (cases "txn1_guarded peer env ?s"; cases "fst (txn1_guarded peer env ?s)")
       (simp_all add: txn1_def connect_def set_autocommit_def cursor_def)
  show ?thesis
    unfolding run txn1_guarded_events by (simp add: signals_def Ok)
next
  case (Raises e)
  then show ?thesis
    by (simp add: txn1_def connect_def signals_def)
next
  case Blocks
  then show ?thesis
    by (simp add: txn1_def connect_def signals_def)
qed

lemma txn2_events:
  "events (snd (txn2 peer env s)) =
     (if signals env then (events s)\<lparr>lock2_acquired := True\<rparr> else events s)"
proof (cases "connect_out env")
  case Ok
  let ?s = "did Cursor ((did (SetAutocommit False) (did Connect (s\<lparr>conn := Opened\<rparr>)))\<lparr>cur := Opened\<rparr>)"
  have run: "txn2 peer env s = txn2_guarded peer env ?s"
    using Ok
    by (cases "txn2_guarded peer env ?s"; cases "fst (txn2_guarded peer env ?s)")
       (simp_all add: txn2_def connect_def set_autocommit_def cursor_def)
  show ?thesis
    unfolding run txn2_guarded_events by (simp add: signals_def Ok)
next
  case (Raises e)
  then show ?thesis
    by (simp add: txn2_def connect_def signals_def)
next
  case Blocks
  then show ?thesis
    by (simp add: txn2_def connect_def signals_def)
qed

subsection \<open>The scripts on the example engines\<close>

lemmas script_defs =
  txn1_def txn2_def txn1_guarded_def txn2_guarded_def txn1_try_def txn2_try_def
  txn1_except_def txn2_except_def try_finally_def try_except_def connect_def
  set_autocommit_def cursor_def execute_def commit_def rollback_def print_def sleep_def
  cursor_close_def conn_close_def lock1_set_def lock2_set_def lock1_wait_def lock2_wait_def
  call_def did_def fresh_def

lemmas engine_defs =
  all_ok_def victim_def no_orders_table_def out_of_memory_def deadlock_detected_def
  undefined_table_def cleared_def entered_def

lemma txn1_commits:
  "txn1 True all_ok (fresh cleared) =
    (Val (), \<lparr> conn = Closed, cur = Closed,
      events = \<lparr> lock1_acquired = True, lock2_acquired = False \<rparr>,
      trace = [Connect, SetAutocommit False, Cursor, Execute set_deadlock_timeout,
               Execute lock_orders, EventSet ''lock1_acquired'', EventWait ''lock2_acquired'',
               Sleep 1, Execute lock_inventory, Commit, CursorClose, ConnClose] \<rparr>)"
  by (simp add: script_defs engine_defs)

lemma txn1_victim:
  "txn1 True victim (fresh cleared) =
    (Val (), \<lparr> conn = Closed, cur = Closed,
      events = \<lparr> lock1_acquired = True, lock2_acquired = False \<rparr>,
      trace = [Connect, SetAutocommit False, Cursor, Execute set_deadlock_timeout,
               Execute lock_orders, EventSet ''lock1_acquired'', EventWait ''lock2_acquired'',
               Sleep 1, Execute lock_inventory,
               Print ''[T1] DEADLOCK or rollback: 40P01 - deadlock detected'',
               Rollback, CursorClose, ConnClose] \<rparr>)"
  by (simp add: script_defs engine_defs str_pgcode_def)

lemma txn2_other_exception:
  "txn2 True out_of_memory (fresh cleared) =
    (Exc (OtherException ''MemoryError''), \<lparr> conn = Closed, cur = Closed,
      events = \<lparr> lock1_acquired = False, lock2_acquired = True \<rparr>,
      trace = [Connect, SetAutocommit False, Cursor, Execute set_deadlock_timeout,
               Execute lock_inventory, EventSet ''lock2_acquired'', EventWait ''lock1_acquired'',
               Sleep 1, Execute lock_orders, CursorClose, ConnClose] \<rparr>)"
  by (simp add: script_defs engine_defs)

lemma txn1_no_table_try:
  "fst (txn1_try True no_orders_table (entered cleared)) = Exc undefined_table"
  by (simp add: script_defs engine_defs)

lemma txn1_no_table:
  "txn1_guarded True no_orders_table (entered cleared) =
    (Val (), \<lparr> conn = Closed, cur = Closed, events = cleared,
      trace = [Connect, SetAutocommit False, Cursor, Execute set_deadlock_timeout,
               Execute lock_orders,
               Print ''[T1] DEADLOCK or rollback: 42P01 - relation orders does not exist'',
               Rollback, CursorClose, ConnClose] \<rparr>)"
  by (simp add: script_defs engine_defs str_pgcode_def)

lemma txn2_oom_try:
  "fst (txn2_try True out_of_memory (entered cleared)) = Exc (OtherException ''MemoryError'')"
  by (simp add: script_defs engine_defs)

text \<open>
  C7. On every exit path of a transaction script, by commit, by a rollback after an error
  of the engine, or by any other exception, the script's cursor and connection are closed
  when the script ends: no handle is left open, and both are closed whenever the
  connection was made.
\<close>

theorem scripts_close_session:
  "(fst (txn1 peer env (fresh b)) \<noteq> Hang \<longrightarrow>
      conn (snd (txn1 peer env (fresh b))) \<noteq> Opened \<and>
      cur (snd (txn1 peer env (fresh b))) \<noteq> Opened \<and>
      (connect_out env = Ok \<longrightarrow>
         conn (snd (txn1 peer env (fresh b))) = Closed \<and>
         cur (snd (txn1 peer env (fresh b))) = Closed)) \<and>
   (fst (txn2 peer env (fresh b)) \<noteq> Hang \<longrightarrow>
      conn (snd (txn2 peer env (fresh b))) \<noteq> Opened \<and>
      cur (snd (txn2 peer env (fresh b))) \<noteq> Opened \<and>
      (connect_out env = Ok \<longrightarrow>
         conn (snd (txn2 peer env (fresh b))) = Closed \<and>
         cur (snd (txn2 peer env (fresh b))) = Closed))"
  using txn1_closes [of peer env b] txn2_closes [of peer env b] by blast

theorem scripts_close_session_witness:
  "fst (txn1 True all_ok (fresh cleared)) = Val () \<and>
   Commit \<in> set (trace (snd (txn1 True all_ok (fresh cleared)))) \<and>
   conn (snd (txn1 True all_ok (fresh cleared))) = Closed \<and>
   cur (snd (txn1 True all_ok (fresh cleared))) = Closed \<and>
   fst (txn1 True victim (fresh cleared)) = Val () \<and>
   Rollback \<in> set (trace (snd (txn1 True victim (fresh cleared)))) \<and>
   conn (snd (txn1 True victim (fresh cleared))) = Closed \<and>
   cur (snd (txn1 True victim (fresh cleared))) = Closed \<and>
   fst (txn2 True out_of_memory (fresh cleared)) = Exc (OtherException ''MemoryError'') \<and>
   connect_out out_of_memory = Ok \<and>
   conn (snd (txn2 True out_of_memory (fresh cleared))) = Closed \<and>
   cur (snd (txn2 True out_of_memory (fresh cleared))) = Closed"
  using scripts_close_session [of True all_ok cleared]
    scripts_close_session [of True victim cleared]
    scripts_close_session [of True out_of_memory cleared]
  by (simp add: txn1_commits txn1_victim txn2_other_exception)
     (simp add: out_of_memory_def all_ok_def)

text \<open>
  C4, as stated: an error raised inside a transaction script that is not of the engine's
  deadlock class is surfaced to the caller. It fails: when the table \<open>orders\<close> is missing,
  the first \<open>SELECT\<close> of \<open>txn1\<close> raises \<open>undefined_table\<close> (42P01), which is not of the
  deadlock class, and the script prints it, rolls back and returns normally.
\<close>

theorem non_deadlock_error_swallowed:
  "fst (txn1_try True no_orders_table (entered cleared)) = Exc undefined_table \<and>
   \<not> deadlock_class undefined_table \<and>
   fst (txn1_guarded True no_orders_table (entered cleared)) = Val () \<and>
   Rollback \<in> set (trace (snd (txn1_guarded True no_orders_table (entered cleared))))"
  by (simp add: txn1_no_table_try txn1_no_table) (simp add: undefined_table_def)

lemma trace_did: "trace (did a s) = trace s @ [a]"
  by (simp add: did_def)

lemma handler1_run:
  "txn1_except env e s =
     (case rollback_out env of Ok \<Rightarrow> Val () | Raises e' \<Rightarrow> Exc e' | Blocks \<Rightarrow> Hang,
      did Rollback
        (did (Print (''[T1] DEADLOCK or rollback: '' @ str_pgcode (pgcode e) @ '' - '' @ str_exn e)) s))"
  by (simp add: txn1_except_def print_def rollback_def call_def split: outcome.split)

lemma handler2_run:
  "txn2_except env e s =
     (case rollback_out env of Ok \<Rightarrow> Val () | Raises e' \<Rightarrow> Exc e' | Blocks \<Rightarrow> Hang,
      did Rollback
        (did (Print (''[T2] DEADLOCK or rollback: '' @ str_pgcode (pgcode e) @ '' - '' @ str_exn e)) s))"
  by (simp add: txn2_except_def print_def rollback_def call_def split: outcome.split)

lemma try_finally_trace:
  "trace (snd (try_finally body (seq [cursor_close, conn_close]) s)) =
     trace (snd (body s)) @ (if fst (body s) = Hang then [] else [CursorClose, ConnClose])"
proof (cases "body s")
  case (Pair r s')
  then show ?thesis
    by (cases r) (simp_all add: try_finally_def closing_suite trace_did del: seq.simps)
qed

lemma try_except_run:
  assumes "fst (body s) = Exc e"
  shows "try_except body catches handler s =
           (if catches e then handler e (snd (body s)) else (Exc e, snd (body s)))"
  using assms by (cases "body s") (simp add: try_except_def)

lemma txn1_guarded_trace:
  assumes "fst (txn1_try peer env s) = Exc e"
  shows "trace (snd (txn1_guarded peer env s)) =
     trace (snd (txn1_try peer env s)) @
       (if is_psycopg_error e
        then [Print (''[T1] DEADLOCK or rollback: '' @ str_pgcode (pgcode e) @ '' - '' @ str_exn e),
              Rollback] @
             (if rollback_out env = Blocks then [] else [CursorClose, ConnClose])
        else [CursorClose, ConnClose])"
  unfolding txn1_guarded_def try_finally_trace
    try_except_run [of "txn1_try peer env" s e is_psycopg_error "txn1_except env", OF assms]
  by (cases "rollback_out env") (simp_all add: handler1_run trace_did)

lemma txn2_guarded_trace:
  assumes "fst (txn2_try peer env s) = Exc e"
  shows "trace (snd (txn2_guarded peer env s)) =
     trace (snd (txn2_try peer env s)) @
       (if is_psycopg_error e
        then [Print (''[T2] DEADLOCK or rollback: '' @ str_pgcode (pgcode e) @ '' - '' @ str_exn e),
              Rollback] @
             (if rollback_out env = Blocks then [] else [CursorClose, ConnClose])
        else [CursorClose, ConnClose])"
  unfolding txn2_guarded_def try_finally_trace
    try_except_run [of "txn2_try peer env" s e is_psycopg_error "txn2_except env", OF assms]
  by (cases "rollback_out env") (simp_all add: handler2_run trace_did)

lemma txn1_no_table_try_trace:
  "trace (snd (txn1_try True no_orders_table (entered cleared))) =
     [Connect, SetAutocommit False, Cursor, Execute set_deadlock_timeout, Execute lock_orders]"
  by (simp add: script_defs engine_defs)

lemma txn2_oom_try_trace:
  "trace (snd (txn2_try True out_of_memory (entered cleared))) =
     [Connect, SetAutocommit False, Cursor, Execute set_deadlock_timeout,
      Execute lock_inventory, EventSet ''lock2_acquired'', EventWait ''lock1_acquired'',
      Sleep 1, Execute lock_orders]"
  by (simp add: script_defs engine_defs)

text \<open>
  C4, amended. The handler of both scripts is \<open>except psycopg2.Error\<close>: every error of that
  class raised inside the \<open>try\<close> suite, of the deadlock class or not, is handled locally.
  It is printed with its code and the transaction is rolled back, and the script then ends
  as the rollback does, normally when the rollback succeeds, after closing the session. An
  exception that is not a \<open>psycopg2.Error\<close> is not handled: nothing is printed or rolled
  back, the session is closed and the exception leaves the script. The theorem gives, for
  both scripts, the result and what is added to the trace of the \<open>try\<close> suite.
\<close>

theorem psycopg_errors_recovered:
  "(fst (txn1_try peer env s) = Exc e \<longrightarrow>
      fst (txn1_guarded peer env s) =
        (if is_psycopg_error e
         then (case rollback_out env of Ok \<Rightarrow> Val () | Raises e' \<Rightarrow> Exc e' | Blocks \<Rightarrow> Hang)
         else Exc e) \<and>
      trace (snd (txn1_guarded peer env s)) =
        trace (snd (txn1_try peer env s)) @
          (if is_psycopg_error e
           then [Print (''[T1] DEADLOCK or rollback: '' @ str_pgcode (pgcode e) @ '' - '' @ str_exn e),
                 Rollback] @
                (if rollback_out env = Blocks then [] else [CursorClose, ConnClose])
           else [CursorClose, ConnClose])) \<and>
   (fst (txn2_try peer env s) = Exc e \<longrightarrow>
      fst (txn2_guarded peer env s) =
        (if is_psycopg_error e
         then (case rollback_out env of Ok \<Rightarrow> Val () | Raises e' \<Rightarrow> Exc e' | Blocks \<Rightarrow> Hang)
         else Exc e) \<and>
      trace (snd (txn2_guarded peer env s)) =
        trace (snd (txn2_try peer env s)) @
          (if is_psycopg_error e
           then [Print (''[T2] DEADLOCK or rollback: '' @ str_pgcode (pgcode e) @ '' - '' @ str_exn e),
                 Rollback] @
                (if rollback_out env = Blocks then [] else [CursorClose, ConnClose])
           else [CursorClose, ConnClose]))"
  using txn1_guarded_result [of peer env s e] txn2_guarded_result [of peer env s e]
    txn1_guarded_trace [of peer env s e] txn2_guarded_trace [of peer env s e]
  by blast

theorem psycopg_errors_recovered_witness:
  "fst (txn1_try True no_orders_table (entered cleared)) = Exc undefined_table \<and>
   is_psycopg_error undefined_table \<and> \<not> deadlock_class undefined_table \<and>
   rollback_out no_orders_table = Ok \<and>
   fst (txn1_guarded True no_orders_table (entered cleared)) = Val () \<and>
   trace (snd (txn1_guarded True no_orders_table (entered cleared))) =
     [Connect, SetAutocommit False, Cursor, Execute set_deadlock_timeout, Execute lock_orders,
      Print ''[T1] DEADLOCK or rollback: 42P01 - relation orders does not exist'',
      Rollback, CursorClose, ConnClose] \<and>
   fst (txn2_try True out_of_memory (entered cleared)) = Exc (OtherException ''MemoryError'') \<and>
   \<not> is_psycopg_error (OtherException ''MemoryError'') \<and>
   fst (txn2_guarded True out_of_memory (entered cleared)) = Exc (OtherException ''MemoryError'') \<and>
   trace (snd (txn2_guarded True out_of_memory (entered cleared))) =
     [Connect, SetAutocommit False, Cursor, Execute set_deadlock_timeout,
      Execute lock_inventory, EventSet ''lock2_acquired'', EventWait ''lock1_acquired'',
      Sleep 1, Execute lock_orders, CursorClose, ConnClose]"
  using psycopg_errors_recovered [of True no_orders_table "entered cleared" undefined_table]
    psycopg_errors_recovered [of True out_of_memory "entered cleared" "OtherException ''MemoryError''"]
  by (simp add: txn1_no_table_try txn2_oom_try txn1_no_table_try_trace txn2_oom_try_trace)
     (simp add: undefined_table_def no_orders_table_def all_ok_def out_of_memory_def
        str_pgcode_def)

subsection \<open>Rounds\<close>

lemma launches_append: "launches (xs @ ys) = launches xs @ launches ys"
  by (induction xs rule: launches.induct) simp_all

lemma round_launches:
  "launches (log (snd (run_deadlock_round k env w))) = launches (log w) @ [(k, cleared)]"
  by (simp add: run_deadlock_round_def Let_def logged_def lock1_clear_def lock2_clear_def
      cleared_def launches_append split: prod.split)

lemma round_flags:
  "flags (snd (run_deadlock_round k env w)) =
     \<lparr> lock1_acquired = signals (t1_env env), lock2_acquired = signals (t2_env env) \<rparr>"
  by (simp add: run_deadlock_round_def Let_def logged_def lock1_clear_def lock2_clear_def
      txn1_events txn2_events split_beta fresh_def)

text \<open>
  C6. For any two rounds run back to back, however the first one ended (whatever the engine
  answered to either script, and whatever the events were before), the second round
  launches its scripts with both events cleared, as the first did: the launches recorded
  by the two rounds are those two, each with both flags false.
\<close>

theorem rounds_launch_cleared:
  "launches (log (snd (run_deadlock_round (Suc n) env' (snd (run_deadlock_round n env w))))) =
     launches (log w) @
       [(n, \<lparr> lock1_acquired = False, lock2_acquired = False \<rparr>),
        (Suc n, \<lparr> lock1_acquired = False, lock2_acquired = False \<rparr>)]"
  by (simp add: round_launches cleared_def)

theorem rounds_launch_cleared_witness:
  "flags (snd (run_deadlock_round 1 deadlock_round started)) =
     \<lparr> lock1_acquired = True, lock2_acquired = True \<rparr> \<and>
   launches (log (snd (run_deadlock_round (Suc 1) deadlock_round
                         (snd (run_deadlock_round 1 deadlock_round started))))) =
     [(1, \<lparr> lock1_acquired = False, lock2_acquired = False \<rparr>),
      (Suc 1, \<lparr> lock1_acquired = False, lock2_acquired = False \<rparr>)]"
  using rounds_launch_cleared [of 1 deadlock_round deadlock_round started]
  by (simp add: round_flags started_def deadlock_round_def signals_def victim_def all_ok_def)

section \<open>Properties of the tools\<close>

subsection \<open>Reasoning about results\<close>

lemma ensures_return: "ensures (py_return x) P \<longleftrightarrow> P x"
  by (auto simp: ensures_def py_return_def)

lemma ensures_raise: "ensures (py_raise e) P"
  by (simp add: ensures_def py_raise_def)

lemma ensures_bind:
  assumes "\<And>x. ensures (f x) P"
  shows "ensures (py_bind m f) P"
  using assms unfolding ensures_def py_bind_def
  by (auto split: prod.splits sum.splits)

lemma ensures_bind_from:
  assumes "ensures m Q" and "\<And>x. Q x \<Longrightarrow> ensures (f x) P"
  shows "ensures (py_bind m f) P"
  using assms unfolding ensures_def py_bind_def
  by (fastforce split: prod.splits sum.splits)

lemma ensures_if:
  assumes "c \<Longrightarrow> ensures a P" and "\<not> c \<Longrightarrow> ensures b P"
  shows "ensures (if c then a else b) P"
  using assms by simp

lemma ensures_case_prod:
  assumes "\<And>a b. ensures (f a b) P"
  shows "ensures (case p of (a, b) \<Rightarrow> f a b) P"
  using assms by (cases p) simp

lemma ensures_weaken:
  assumes "ensures m P" and "\<And>x. P x \<Longrightarrow> Q x"
  shows "ensures m Q"
  using assms unfolding ensures_def by blast

lemma on_exception_returns:
  "on_exception what e l = (Inr (failure e), l @ [LoggerError (what @ str_of_exn e)])"
  by (simp add: on_exception_def py_bind_def called_def py_return_def)

lemma py_try_handled:
  assumes "ensures body P"
  shows "\<exists>r l'. py_try body (on_exception what) l = (Inr r, l') \<and>
           (case fst (body l) of Inl e \<Rightarrow> r = failure e | Inr x \<Rightarrow> r = x \<and> P x)"
proof (cases "body l")
  case (Pair res l')
  show ?thesis
  proof (cases res)
    case (Inl e)
    with Pair show ?thesis
      by (simp add: py_try_def on_exception_returns)
  next
    case (Inr x)
    with Pair assms have "P x"
      unfolding ensures_def by blast
    with Pair Inr show ?thesis
      by (simp add: py_try_def)
  qed
qed

lemmas shape_defs = well_formed_def succeeded_def has_status_def field_def code_statuses_def

lemma check_deadlock_body_shape: "ensures (check_deadlock_body d input) well_formed"
  unfolding check_deadlock_body_def
  by (intro ensures_bind ensures_if) (simp_all add: ensures_return shape_defs)

lemma check_file_size_body_shape: "ensures (check_file_size_body d input) well_formed"
  unfolding check_file_size_body_def Let_def
  by (intro ensures_bind ensures_if) (simp_all add: ensures_return shape_defs)

lemma check_abnormal_data_body_shape: "ensures (check_abnormal_data_body d tables) well_formed"
  unfolding check_abnormal_data_body_def Let_def
  by (intro ensures_bind ensures_if) (simp_all add: ensures_return shape_defs)

lemma check_batch_data_body_shape: "ensures (check_batch_data_body d hours limit) well_formed"
  unfolding check_batch_data_body_def
  by (intro ensures_bind ensures_if) (simp_all add: ensures_return shape_defs)

lemma check_query_response_time_body_shape:
  "ensures (check_query_response_time_body d input) timed"
  unfolding check_query_response_time_body_def Let_def
  by (intro ensures_bind ensures_if ensures_case_prod)
     (simp_all add: ensures_return timed_def shape_defs dict_has_def dict_get_def)

lemma map_of_dict_set: "map_of (dict_set kvs k v) = (map_of kvs)(k \<mapsto> v)"
  by (induction kvs k v rule: dict_set.induct) auto

lemma tool_check_deadlock_handled:
  "\<exists>r l'. tool_check_deadlock d l = (Inr r, l') \<and>
     (case fst (check_deadlock_body d ''check'' l) of
        Inl e \<Rightarrow> r = failure e | Inr x \<Rightarrow> r = x \<and> well_formed x)"
  unfolding tool_check_deadlock_def check_deadlock_def
  by (rule py_try_handled [OF check_deadlock_body_shape])

lemma tool_check_file_size_handled:
  "\<exists>r l'. tool_check_file_size d l = (Inr r, l') \<and>
     (case fst (check_file_size_body d ''check'' l) of
        Inl e \<Rightarrow> r = failure e | Inr x \<Rightarrow> r = x \<and> well_formed x)"
  unfolding tool_check_file_size_def check_file_size_def
  by (rule py_try_handled [OF check_file_size_body_shape])

lemma tool_check_abnormal_data_handled:
  "\<exists>r l'. tool_check_abnormal_data d tables l = (Inr r, l') \<and>
     (case fst (check_abnormal_data_body d tables l) of
        Inl e \<Rightarrow> r = failure e | Inr x \<Rightarrow> r = x \<and> well_formed x)"
  unfolding tool_check_abnormal_data_def check_abnormal_data_def
  by (rule py_try_handled [OF check_abnormal_data_body_shape])

lemma tool_check_batch_data_handled:
  "\<exists>r l'. tool_check_batch_data d hours limit l = (Inr r, l') \<and>
     (case fst (check_batch_data_body d hours limit l) of
        Inl e \<Rightarrow> r = failure e | Inr x \<Rightarrow> r = x \<and> well_formed x)"
  unfolding tool_check_batch_data_def check_batch_data_def
  by (rule py_try_handled [OF check_batch_data_body_shape])

lemma override_well_formed:
  assumes "timed (PDict kvs)"
  shows "\<exists>r l'.
     (if threshold_ms \<noteq> 1000 \<and> truthy (dict_get kvs (PStr ''success'') PNone)
      then
        let r1 = dict_set kvs (PStr ''threshold_ms'') (PFloat threshold_ms)
        in if dict_has r1 (PStr ''is_slow'')
           then py_bind (py_gt (dict_get r1 (PStr ''response_time_ms'') (PInt 0)) threshold_ms)
                  (\<lambda>is_slow.
                     py_return (PDict
                       (dict_set (dict_set r1 (PStr ''is_slow'') (PBool is_slow))
                          (PStr ''status'') (PStr (if is_slow then ''SLOW'' else ''NORMAL'')))))
           else py_return (PDict r1)
      else py_return (PDict kvs)) l = (Inr r, l') \<and> well_formed r"
proof -
  have wf: "map_of kvs (PStr ''success'') = Some (PBool True)"
    using assms by (simp add: timed_def shape_defs)
  have st: "\<exists>s. map_of kvs (PStr ''status'') = Some (PStr s) \<and> s \<in> set code_statuses"
    using assms by (auto simp: timed_def well_formed_def succeeded_def has_status_def field_def
        split: option.splits pyval.splits)
  have num: "map_of kvs (PStr ''is_slow'') \<noteq> None \<Longrightarrow>
      \<exists>x. num_of (dict_get kvs (PStr ''response_time_ms'') (PInt 0)) = Some x"
    using assms by (auto simp: timed_def dict_has_def dict_get_def split: option.splits)
  show ?thesis
  proof (cases "threshold_ms \<noteq> 1000 \<and> truthy (dict_get kvs (PStr ''success'') PNone)")
    case False
    then show ?thesis
      using assms by (auto simp: py_return_def timed_def)
  next
    case True
    show ?thesis
    proof (cases "map_of kvs (PStr ''is_slow'') = None")
      case True
      with \<open>threshold_ms \<noteq> 1000 \<and> truthy (dict_get kvs (PStr ''success'') PNone)\<close> wf st
      show ?thesis
        by (auto simp: Let_def dict_has_def map_of_dict_set py_return_def shape_defs)
    next
      case False
      from num [OF False] obtain x
        where x: "num_of (dict_get kvs (PStr ''response_time_ms'') (PInt 0)) = Some x" by blast
      have x': "num_of (dict_get (dict_set kvs (PStr ''threshold_ms'') (PFloat threshold_ms))
                  (PStr ''response_time_ms'') (PInt 0)) = Some x"
        using x by (simp add: dict_get_def map_of_dict_set)
      from False \<open>threshold_ms \<noteq> 1000 \<and> truthy (dict_get kvs (PStr ''success'') PNone)\<close> wf
      show ?thesis
        by (simp add: Let_def dict_has_def map_of_dict_set py_return_def py_bind_def py_gt_def
            x' shape_defs)
    qed
  qed
qed

lemma failure_not_truthy:
  "truthy (dict_get [kv ''success'' (PBool False), kv ''error'' (PStr m)] (PStr ''success'') PNone)
     = False"
  by (simp add: dict_get_def)

lemma tool_check_query_response_time_handled:
  "\<exists>r l'. tool_check_query_response_time d q t l = (Inr r, l') \<and>
     (case fst (check_query_response_time_body d q l) of
        Inl e \<Rightarrow> r = failure e | Inr x \<Rightarrow> well_formed r)"
proof -
  obtain r0 l0 where run: "check_query_response_time d q l = (Inr r0, l0)"
    and r0: "case fst (check_query_response_time_body d q l) of
               Inl e \<Rightarrow> r0 = failure e | Inr x \<Rightarrow> r0 = x \<and> timed x"
    using py_try_handled [OF check_query_response_time_body_shape]
    unfolding check_query_response_time_def by blast
  show ?thesis
  proof (cases "fst (check_query_response_time_body d q l)")
    case (Inl e)
    with r0 have "r0 = failure e" by simp
    with run Inl show ?thesis
      by (simp add: tool_check_query_response_time_def py_bind_def failure_def
          failure_not_truthy py_return_def)
  next
    case (Inr x)
    with r0 have tm: "timed r0" by simp
    then obtain kvs where kvs: "r0 = PDict kvs"
      by (cases r0) (simp_all add: timed_def)
    from override_well_formed [of kvs t l0] tm kvs
    obtain r l' where
      "(if t \<noteq> 1000 \<and> truthy (dict_get kvs (PStr ''success'') PNone)
        then
          let r1 = dict_set kvs (PStr ''threshold_ms'') (PFloat t)
          in if dict_has r1 (PStr ''is_slow'')
             then py_bind (py_gt (dict_get r1 (PStr ''response_time_ms'') (PInt 0)) t)
                    (\<lambda>is_slow.
                       py_return (PDict
                         (dict_set (dict_set r1 (PStr ''is_slow'') (PBool is_slow))
                            (PStr ''status'') (PStr (if is_slow then ''SLOW'' else ''NORMAL'')))))
             else py_return (PDict r1)
        else py_return (PDict kvs)) l0 = (Inr r, l')" and "well_formed r"
      by blast
    with run kvs Inr show ?thesis
      by (simp add: tool_check_query_response_time_def py_bind_def)
  qed
qed

subsection \<open>Every tool answers\<close>

lemma failure_is_failure: "is_failure (failure e)"
  by (simp add: is_failure_def failure_def field_def)

lemma failure_no_status: "field (failure e) ''status'' = None"
  by (simp add: failure_def field_def)

lemma well_formed_not_failure: "well_formed r \<Longrightarrow> \<not> is_failure r"
  by (auto simp: well_formed_def succeeded_def is_failure_def field_def
      split: option.splits pyval.splits)

lemma handled_answers:
  assumes "\<exists>r l'. tool l = (Inr r, l') \<and>
             (case fst (body l) of Inl e \<Rightarrow> r = failure e | Inr x \<Rightarrow> well_formed r)"
  shows "answers tool l \<and> handles body tool l \<and> reports code_statuses tool l"
proof -
  from assms obtain r l' where run: "tool l = (Inr r, l')"
    and r: "case fst (body l) of Inl e \<Rightarrow> r = failure e | Inr x \<Rightarrow> well_formed r"
    by blast
  show ?thesis
  proof (cases "fst (body l)")
    case (Inl e)
    with r have "r = failure e" by simp
    with run Inl show ?thesis
      by (simp add: answers_def handles_def reports_def failure_is_failure failure_no_status)
  next
    case (Inr x)
    with r have "well_formed r" by simp
    with run Inr show ?thesis
      by (simp add: answers_def handles_def reports_def well_formed_not_failure)
         (simp add: well_formed_def)
  qed
qed

lemma handled_same:
  assumes "\<exists>r l'. tool l = (Inr r, l') \<and>
             (case fst (body l) of Inl e \<Rightarrow> r = failure e | Inr x \<Rightarrow> r = x \<and> well_formed x)"
  shows "\<exists>r l'. tool l = (Inr r, l') \<and>
             (case fst (body l) of Inl e \<Rightarrow> r = failure e | Inr x \<Rightarrow> well_formed r)"
  using assms by (cases "fst (body l)") auto

lemma query_tool:
  "answers (tool_check_query_response_time d q t) l \<and>
   handles (check_query_response_time_body d q) (tool_check_query_response_time d q t) l \<and>
   reports code_statuses (tool_check_query_response_time d q t) l"
  using tool_check_query_response_time_handled [of d q t l]
  by (rule handled_answers
      [where tool = "tool_check_query_response_time d q t"
         and body = "check_query_response_time_body d q" and l = l])

lemma deadlock_tool:
  "answers (tool_check_deadlock d) l \<and>
   handles (check_deadlock_body d ''check'') (tool_check_deadlock d) l \<and>
   reports code_statuses (tool_check_deadlock d) l"
  using tool_check_deadlock_handled [of d l]
  by (intro handled_answers
      [where tool = "tool_check_deadlock d" and body = "check_deadlock_body d ''check''" and l = l]
      handled_same
      [where tool = "tool_check_deadlock d" and body = "check_deadlock_body d ''check''" and l = l])

lemma size_tool:
  "answers (tool_check_file_size d) l \<and>
   handles (check_file_size_body d ''check'') (tool_check_file_size d) l \<and>
   reports code_statuses (tool_check_file_size d) l"
  using tool_check_file_size_handled [of d l]
  by (intro handled_answers
      [where tool = "tool_check_file_size d" and body = "check_file_size_body d ''check''" and l = l]
      handled_same
      [where tool = "tool_check_file_size d" and body = "check_file_size_body d ''check''" and l = l])

lemma abnormal_tool:
  "answers (tool_check_abnormal_data d tables) l \<and>
   handles (check_abnormal_data_body d tables) (tool_check_abnormal_data d tables) l \<and>
   reports code_statuses (tool_check_abnormal_data d tables) l"
  using tool_check_abnormal_data_handled [of d tables l]
  by (intro handled_answers
      [where tool = "tool_check_abnormal_data d tables"
         and body = "check_abnormal_data_body d tables" and l = l]
      handled_same
      [where tool = "tool_check_abnormal_data d tables"
         and body = "check_abnormal_data_body d tables" and l = l])

lemma batch_tool:
  "answers (tool_check_batch_data d hours limit) l \<and>
   handles (check_batch_data_body d hours limit) (tool_check_batch_data d hours limit) l \<and>
   reports code_statuses (tool_check_batch_data d hours limit) l"
  using tool_check_batch_data_handled [of d hours limit l]
  by (intro handled_answers
      [where tool = "tool_check_batch_data d hours limit"
         and body = "check_batch_data_body d hours limit" and l = l]
      handled_same
      [where tool = "tool_check_batch_data d hours limit"
         and body = "check_batch_data_body d hours limit" and l = l])

lemmas tool_defs =
  tool_check_deadlock_def check_deadlock_def check_deadlock_body_def
  tool_check_abnormal_data_def check_abnormal_data_def check_abnormal_data_body_def
  check_table_def get_db_connection_def db_check_deadlocks_call_def execute_query_def
  on_exception_def failure_def py_try_def py_bind_def py_return_def py_raise_def called_def

lemma deadlock_tool_unreachable:
  "tool_check_deadlock unreachable [] =
     (Inr (PDict [kv ''success'' (PBool False), kv ''error'' (PStr ''connection refused'')]),
      [GetDbConnection, LoggerError ''Deadlock check error: connection refused''])"
  by (simp add: tool_defs unreachable_def refused_def)

lemma deadlock_body_unreachable:
  "fst (check_deadlock_body unreachable ''check'' []) = Inl refused"
  by (simp add: tool_defs unreachable_def refused_def)

lemma deadlock_tool_idle:
  "tool_check_deadlock idle [] =
     (Inr (PDict [kv ''success'' (PBool True), kv ''input'' (PStr ''check''),
                  kv ''deadlocks_detected'' (PBool False),
                  kv ''status'' (PStr ''NO ACTIVE DEADLOCK''),
                  kv ''message'' (PStr ''No deadlocks or blocking sessions detected'')]),
      [GetDbConnection, CheckDeadlocks])"
  by (simp add: tool_defs idle_def)

text \<open>
  C3. Whatever the database answers and whatever exception is raised while a tool is
  serviced, each of the five tools returns to its caller: the result is a dict with
  \<open>success\<close> true, or the dict \<open>{success: false, error: message}\<close>; and an exception
  raised in the body of a tool comes back as that dict with the exception's message.
\<close>

theorem tools_never_raise:
  "answers (tool_check_query_response_time d q t) l \<and>
   handles (check_query_response_time_body d q) (tool_check_query_response_time d q t) l \<and>
   answers (tool_check_deadlock d) l \<and>
   handles (check_deadlock_body d ''check'') (tool_check_deadlock d) l \<and>
   answers (tool_check_file_size d) l \<and>
   handles (check_file_size_body d ''check'') (tool_check_file_size d) l \<and>
   answers (tool_check_abnormal_data d tables) l \<and>
   handles (check_abnormal_data_body d tables) (tool_check_abnormal_data d tables) l \<and>
   answers (tool_check_batch_data d hours limit) l \<and>
   handles (check_batch_data_body d hours limit) (tool_check_batch_data d hours limit) l"
  using query_tool [of d q t l] deadlock_tool [of d l] size_tool [of d l]
    abnormal_tool [of d tables l] batch_tool [of d hours limit l]
  by simp

theorem tools_never_raise_witness:
  "fst (check_deadlock_body unreachable ''check'' []) = Inl refused \<and>
   fst (tool_check_deadlock unreachable []) = Inr (failure refused) \<and>
   is_failure (failure refused) \<and>
   answers (tool_check_deadlock unreachable) [] \<and>
   handles (check_deadlock_body unreachable ''check'') (tool_check_deadlock unreachable) [] \<and>
   answers (tool_check_deadlock idle) [] \<and>
   field (projr (fst (tool_check_deadlock idle []))) ''success'' = Some (PBool True)"
  using tools_never_raise [of unreachable "''x''" 1000 "[]" "''all''" 24 5]
    tools_never_raise [of idle "''x''" 1000 "[]" "''all''" 24 5]
  by (simp add: deadlock_tool_unreachable deadlock_body_unreachable deadlock_tool_idle
      failure_is_failure)
     (simp add: failure_def refused_def field_def)

subsection \<open>The statuses\<close>

text \<open>
  C5, as stated: every report carries a status of the vocabulary NORMAL, WARNING, SLOW,
  DEADLOCK\_DETECTED, ABNORMAL, ERROR. It fails: on an engine without contention the
  deadlock tool reports the status \<open>NO ACTIVE DEADLOCK\<close>.
\<close>

theorem status_outside_vocabulary:
  "field (projr (fst (tool_check_deadlock idle []))) ''status'' = Some (PStr ''NO ACTIVE DEADLOCK'') \<and>
   ''NO ACTIVE DEADLOCK'' \<notin> set spec_statuses \<and>
   \<not> reports spec_statuses (tool_check_deadlock idle) []"
  by (simp add: deadlock_tool_idle reports_def is_failure_def has_status_def field_def
      spec_statuses_def)

text \<open>
  C5, amended. The tools write their own bounded vocabulary: every successful report of
  the five tools carries one of the statuses NORMAL, WARNING, CRITICAL, SLOW,
  SLOW QUERIES DETECTED, ACTIVE DEADLOCK DETECTED, NO ACTIVE DEADLOCK,
  ABNORMAL DATA DETECTED, BATCH ISSUES DETECTED, and a failure envelope carries no
  status at all.
\<close>

theorem tools_report_code_statuses:
  "reports code_statuses (tool_check_query_response_time d q t) l \<and>
   reports code_statuses (tool_check_deadlock d) l \<and>
   reports code_statuses (tool_check_file_size d) l \<and>
   reports code_statuses (tool_check_abnormal_data d tables) l \<and>
   reports code_statuses (tool_check_batch_data d hours limit) l"
  using query_tool [of d q t l] deadlock_tool [of d l] size_tool [of d l]
    abnormal_tool [of d tables l] batch_tool [of d hours limit l]
  by simp

theorem tools_report_code_statuses_witness:
  "reports code_statuses (tool_check_deadlock idle) [] \<and>
   \<not> is_failure (projr (fst (tool_check_deadlock idle []))) \<and>
   has_status code_statuses (projr (fst (tool_check_deadlock idle []))) \<and>
   reports code_statuses (tool_check_deadlock unreachable) [] \<and>
   is_failure (projr (fst (tool_check_deadlock unreachable []))) \<and>
   field (projr (fst (tool_check_deadlock unreachable []))) ''status'' = None"
  using tools_report_code_statuses [of idle "''x''" 1000 "[]" "''all''" 24 5]
    tools_report_code_statuses [of unreachable "''x''" 1000 "[]" "''all''" 24 5]
  by (simp add: deadlock_tool_idle deadlock_tool_unreachable)
     (simp add: is_failure_def has_status_def field_def code_statuses_def)


subsection \<open>The failure rate of \<open>check_batch_data\<close>\<close>

lemma failure_rate_not_positive:
  assumes "num_of total_processed = Some x" and "x \<le> 0"
  shows "failure_rate total_failed total_processed l = (Inr (PInt 0), l)"
  using assms by (simp add: failure_rate_def py_gt_def py_bind_def py_return_def)

lemma failure_rate_no_zero_division:
  assumes "fst (failure_rate total_failed total_processed l) = Inl e"
  shows "\<not> is_ZeroDivisionError e"
proof (cases "num_of total_processed")
  case None
  with assms show ?thesis
    by (auto simp: failure_rate_def py_gt_def py_bind_def py_raise_def)
next
  case (Some x)
  show ?thesis
  proof (cases "0 < x")
    case False
    with Some assms show ?thesis
      by (simp add: failure_rate_def py_gt_def py_bind_def py_return_def)
  next
    case True
    show ?thesis
    proof (cases "num_of total_failed")
      case None
      with Some True assms show ?thesis
        by (auto simp: failure_rate_def py_gt_def py_bind_def py_return_def py_raise_def
            py_truediv_def)
    next
      case (Some y)
      with \<open>num_of total_processed = Some x\<close> True assms show ?thesis
        by (simp add: failure_rate_def py_gt_def py_bind_def py_return_def py_truediv_def
            py_mul_def)
    qed
  qed
qed

lemma failure_rate_ensures:
  "ensures (failure_rate total_failed total_processed)
     (\<lambda>rate. num_of total_processed = Some 0 \<longrightarrow> rate = PInt 0)"
  unfolding ensures_def
  by (auto simp: failure_rate_not_positive)

lemma check_batch_data_body_rate: "ensures (check_batch_data_body d hours limit) rate_guarded"
  unfolding check_batch_data_body_def
  by (intro ensures_bind_from [OF failure_rate_ensures] ensures_bind ensures_if)
     (simp_all add: ensures_return rate_guarded_def field_def)

lemma tool_check_batch_data_rate:
  assumes "fst (tool_check_batch_data d hours limit l) = Inr r"
  shows "rate_guarded r"
proof -
  obtain r0 l0 where run: "tool_check_batch_data d hours limit l = (Inr r0, l0)"
    and r0: "case fst (check_batch_data_body d hours limit l) of
               Inl e \<Rightarrow> r0 = failure e | Inr x \<Rightarrow> r0 = x \<and> rate_guarded x"
    using py_try_handled [OF check_batch_data_body_rate]
    unfolding tool_check_batch_data_def check_batch_data_def by blast
  from run assms have "r = r0" by simp
  with r0 show ?thesis
    by (cases "fst (check_batch_data_body d hours limit l)")
       (simp_all add: rate_guarded_def failure_def field_def)
qed

lemmas batch_defs =
  tool_check_batch_data_def check_batch_data_def check_batch_data_body_def
  get_db_connection_def execute_query_def on_exception_def failure_def py_try_def
  py_bind_def py_return_def py_raise_def called_def subscript_def enrich_def sum_of_def
  py_add_def failure_rate_def py_gt_def dict_get_def dicts_def strings_def error_query_def

lemma stalled_run:
  "fst (tool_check_batch_data stalled 24 5 []) =
     Inr (PDict
       [kv ''success'' (PBool True),
        kv ''time_window_hours'' (PInt 24),
        kv ''limit'' (PInt 5),
        kv ''has_abnormal_data'' (PBool True),
        kv ''status'' (PStr ''BATCH ISSUES DETECTED''),
        kv ''total_batches_analyzed'' (PInt 1),
        kv ''total_records_processed'' (PInt 0),
        kv ''total_failed_records'' (PInt 3),
        kv ''failure_rate_percent'' (PInt 0),
        kv ''batch_details'' (PList [PDict (stalled_batch @ [kv ''failure_reasons'' (PDict [])])]),
        kv ''recommendations''
           (PList [PStr ''Review batch processing logs'',
                   PStr ''Implement retry mechanism for transient failures'',
                   PStr ''Validate data before batch processing''])])"
  by (simp add: batch_defs stalled_def idle_def stalled_batch_def batch_jobs_query_def)

text \<open>
  C9. The failure rate of \<open>check_batch_data\<close> never divides by zero. When the sum of
  \<open>processed_records\<close> is zero the rate is the \<open>int\<close> 0, returned by the conditional
  without evaluating the division; the expression raises no \<open>ZeroDivisionError\<close> for any
  two totals; and every report of the tool that carries a total of zero processed records
  carries the rate 0.
\<close>

theorem failure_rate_guarded:
  "(num_of total_processed = Some 0 \<longrightarrow>
      failure_rate total_failed total_processed l = (Inr (PInt 0), l)) \<and>
   (case fst (failure_rate total_failed total_processed l) of
      Inl e \<Rightarrow> \<not> is_ZeroDivisionError e | Inr rate \<Rightarrow> True) \<and>
   (case fst (tool_check_batch_data d hours limit l) of
      Inl e \<Rightarrow> False | Inr r \<Rightarrow> rate_guarded r)"
proof (intro conjI)
  show "num_of total_processed = Some 0 \<longrightarrow>
      failure_rate total_failed total_processed l = (Inr (PInt 0), l)"
    by (simp add: failure_rate_not_positive)
  show "case fst (failure_rate total_failed total_processed l) of
      Inl e \<Rightarrow> \<not> is_ZeroDivisionError e | Inr rate \<Rightarrow> True"
    using failure_rate_no_zero_division [of total_failed total_processed l]
    by (cases "fst (failure_rate total_failed total_processed l)") simp_all
  show "case fst (tool_check_batch_data d hours limit l) of
      Inl e \<Rightarrow> False | Inr r \<Rightarrow> rate_guarded r"
  proof (cases "fst (tool_check_batch_data d hours limit l)")
    case (Inl e)
    moreover have "\<exists>r l'. tool_check_batch_data d hours limit l = (Inr r, l')"
      using py_try_handled [OF check_batch_data_body_rate]
      unfolding tool_check_batch_data_def check_batch_data_def by blast
    ultimately show ?thesis by auto
  next
    case (Inr r)
    then show ?thesis
      using tool_check_batch_data_rate [of d hours limit l r] by simp
  qed
qed

theorem failure_rate_guarded_witness:
  "num_of (PInt 0) = Some 0 \<and>
   failure_rate (PInt 3) (PInt 0) [] = (Inr (PInt 0), []) \<and>
   field (projr (fst (tool_check_batch_data stalled 24 5 []))) ''total_records_processed''
     = Some (PInt 0) \<and>
   field (projr (fst (tool_check_batch_data stalled 24 5 []))) ''total_failed_records''
     = Some (PInt 3) \<and>
   field (projr (fst (tool_check_batch_data stalled 24 5 []))) ''failure_rate_percent''
     = Some (PInt 0) \<and>
   rate_guarded (projr (fst (tool_check_batch_data stalled 24 5 [])))"
  using failure_rate_guarded [of "PInt 0" "PInt 3" "[]" stalled 24 5]
  by (simp add: stalled_run) (simp add: field_def)

subsection \<open>An unrecognised table scope\<close>

lemmas abnormal_defs =
  tool_check_abnormal_data_def check_abnormal_data_def check_abnormal_data_body_def
  check_table_def get_db_connection_def execute_query_def on_exception_def failure_def
  py_try_def py_bind_def py_return_def py_raise_def called_def

lemma lower_customers: "lower ''customers'' = ''customers''"
  by (simp add: lower_def lower_char_def)

text \<open>
  C10, as stated: for every \<open>tables\<close> argument outside the five recognised scopes the
  tool returns the NORMAL report. It fails when the connection to the database cannot be
  obtained: \<open>get_db_connection\<close> raises inside the \<open>try\<close>, and the tool returns the
  failure envelope.
\<close>

theorem unknown_scope_unreachable:
  "lower ''customers'' \<notin> set known_scopes \<and>
   tool_check_abnormal_data unreachable ''customers'' [] =
     (Inr (PDict [kv ''success'' (PBool False), kv ''error'' (PStr ''connection refused'')]),
      [GetDbConnection, LoggerError ''Abnormal data check error: connection refused''])"
  by (simp add: lower_customers known_scopes_def abnormal_defs unreachable_def refused_def)

text \<open>
  C10, amended. When the connection to the database is obtained, for every \<open>tables\<close>
  argument whose lowercase form is none of \<open>all\<close>, \<open>orders\<close>, \<open>inventory\<close>,
  \<open>transactions\<close>, \<open>transaction_log\<close> the tool runs no query (its only call is
  \<open>get_db_connection\<close>) and returns the NORMAL report: an unrecognised scope is
  reported as normal, not as an error.
\<close>

theorem unknown_scope_normal:
  "db_connect d = None \<Longrightarrow> lower tables \<notin> set known_scopes \<Longrightarrow>
   tool_check_abnormal_data d tables l =
     (Inr (PDict
        [kv ''success'' (PBool True),
         kv ''tables_checked'' (PStr tables),
         kv ''has_abnormal_data'' (PBool False),
         kv ''status'' (PStr ''NORMAL''),
         kv ''message'' (PStr (''No data anomalies detected in '' @ tables))]),
      l @ [GetDbConnection])"
  by (simp add: abnormal_defs known_scopes_def Let_def)

theorem unknown_scope_normal_witness:
  "db_connect idle = None \<and> lower ''customers'' \<notin> set known_scopes \<and>
   tool_check_abnormal_data idle ''customers'' [] =
     (Inr (PDict
        [kv ''success'' (PBool True),
         kv ''tables_checked'' (PStr ''customers''),
         kv ''has_abnormal_data'' (PBool False),
         kv ''status'' (PStr ''NORMAL''),
         kv ''message'' (PStr ''No data anomalies detected in customers'')]),
      [GetDbConnection])"
  using unknown_scope_normal [of idle "''customers''" "[]"]
  by (simp add: lower_customers known_scopes_def idle_def)

end
